theory Spec2Isabelle
  imports Complex_Main
begin

section \<open>Python builtins and library calls used by the generator\<close>

text \<open>
  The generator script \<^verbatim>\<open>islamic_finance_db.py\<close> computes with Python integers, floats and
  dates. Integers are modelled as \<open>int\<close>, dates as their proleptic ordinal (an \<open>int\<close>, so that
  adding a \<^verbatim>\<open>timedelta(days=n)\<close> is adding \<open>n\<close>), and floats as \<open>real\<close>: the arithmetic
  of this development is exact, binary rounding of IEEE doubles is not modelled.

  The script reads the clock (\<^verbatim>\<open>datetime.now().date()\<close>) in many places; the value read is
  the parameter \<open>now\<close> of every definition below. Draws from the seeded generators are
  parameters too: a raw draw is a natural number for the integer-valued library calls and a
  real in \<open>[0, 1)\<close> (the value of \<^verbatim>\<open>random.random()\<close>) for the float-valued ones.
\<close>

type_synonym date = int

datatype error = ZeroDivisionError | ValueError | IndexError

text \<open>Float division \<^verbatim>\<open>a / b\<close>: a zero denominator raises.\<close>

definition py_div :: "real \<Rightarrow> real \<Rightarrow> error + real" where
  "py_div a b = (if b = 0 then Inl ZeroDivisionError else Inr (a / b))"

text \<open>\<^verbatim>\<open>int(x)\<close> on a float truncates towards zero.\<close>

definition py_int :: "real \<Rightarrow> int" where
  "py_int x = (if 0 \<le> x then \<lfloor>x\<rfloor> else \<lceil>x\<rceil>)"

text \<open>\<^verbatim>\<open>round(x, n)\<close>: nearest multiple of \<open>10^-n\<close>, ties to the even one.\<close>

definition half_even :: "real \<Rightarrow> int" where
  "half_even y =
     (let f = \<lfloor>y\<rfloor>; d = y - of_int f
      in if d < 1 / 2 then f else if 1 / 2 < d then f + 1 else if even f then f else f + 1)"

definition py_round :: "real \<Rightarrow> nat \<Rightarrow> real" where
  "py_round x n = of_int (half_even (x * 10 ^ n)) / 10 ^ n"

text \<open>
  \<^verbatim>\<open>random.randint(a, b)\<close> returns an integer \<open>N\<close> with \<open>a \<le> N \<le> b\<close> and raises ValueError
  on an empty range; \<^verbatim>\<open>random.uniform(a, b)\<close> is \<open>a + (b - a) * random()\<close>;
  \<^verbatim>\<open>random.choice(seq)\<close> raises IndexError on an empty sequence.
\<close>

definition random_randint :: "int \<Rightarrow> int \<Rightarrow> nat \<Rightarrow> error + int" where
  "random_randint a b k = (if b < a then Inl ValueError else Inr (a + int k mod (b - a + 1)))"

definition random_uniform :: "real \<Rightarrow> real \<Rightarrow> real \<Rightarrow> real" where
  "random_uniform a b r = a + (b - a) * r"

definition random_choice :: "'a list \<Rightarrow> nat \<Rightarrow> error + 'a" where
  "random_choice xs k = (if xs = [] then Inl IndexError else Inr (xs ! (k mod length xs)))"

text \<open>A raw float draw is a value of \<^verbatim>\<open>random.random()\<close>.\<close>

definition unit_draw :: "real \<Rightarrow> bool" where
  "unit_draw r = (0 \<le> r \<and> r < 1)"

text \<open>
  \<^verbatim>\<open>fake.date_between(start_date, end_date)\<close> returns a date of the closed window and
  raises ValueError on an empty window (an end date before the start date).
\<close>

definition date_between :: "date \<Rightarrow> date \<Rightarrow> nat \<Rightarrow> error + date" where
  "date_between start_date end_date k =
     (if end_date < start_date then Inl ValueError
      else Inr (start_date + int k mod (end_date - start_date + 1)))"

section \<open>Configuration\<close>

definition DEFAULT_RATE :: real where
  "DEFAULT_RATE = 5 / 100"

text \<open>\<^verbatim>\<open>datetime(2020, 1, 1)\<close> and \<^verbatim>\<open>datetime(2024, 10, 31)\<close> as ordinals.\<close>

definition START_DATE :: date where
  "START_DATE = 737425"

definition END_DATE :: date where
  "END_DATE = 739190"

section \<open>Loan generator: one iteration of \<^verbatim>\<open>generate_business_loans\<close>\<close>

datatype loan_status = Active | PaidOff | Defaulted

record borrower_row =
  borrower_id :: nat
  credit_score :: int

text \<open>
  A row of \<^verbatim>\<open>business_loans\<close>. The two descriptive text columns (purpose, collateral),
  drawn by \<^verbatim>\<open>random.choice\<close> from fixed non-empty lists, carry no logic and are left out.
\<close>

record loan =
  loan_borrower_id :: nat
  loan_amount :: real
  disbursement_date :: date
  maturity_date :: date
  profit_rate :: real
  loan_status :: loan_status
  approved_by_employee_id :: nat
  outstanding_balance :: real

text \<open>
  The raw draws one iteration of the loan loop consumes. The borrower row returned by
  \<^verbatim>\<open>borrowers_df.sample(1)\<close> is a parameter of the iteration.
\<close>

record loan_rand =
  rnd_amount :: nat
  rnd_disbursement :: nat
  rnd_term :: nat
  rnd_jitter :: real
  rnd_default :: real
  rnd_recovery :: real
  rnd_employee :: nat

text \<open>Lines 515-520: the principal by credit-score tier.\<close>

definition draw_loan_amount :: "int \<Rightarrow> nat \<Rightarrow> error + int" where
  "draw_loan_amount cs k =
     (if cs \<ge> 750 then random_randint 100000 500000 k
      else if cs \<ge> 650 then random_randint 50000 250000 k
      else random_randint 10000 100000 k)"

text \<open>
  The bounds passed to \<^verbatim>\<open>random.randint\<close> in each branch of lines 515-520, as a function of
  the credit score (see \<open>draw_loan_amount_by_range\<close>).
\<close>

definition loan_amount_range :: "int \<Rightarrow> int \<times> int" where
  "loan_amount_range cs =
     (if cs \<ge> 750 then (100000, 500000)
      else if cs \<ge> 650 then (50000, 250000)
      else (10000, 100000))"

text \<open>Lines 526-535: the profit rate by tier, with jitter.\<close>

definition draw_profit_rate :: "int \<Rightarrow> real \<Rightarrow> real" where
  "draw_profit_rate cs r =
     (let base_profit_rate = 10 / 100;
          profit_rate = (if cs \<ge> 750 then base_profit_rate - 2 / 100
                         else if cs \<ge> 650 then base_profit_rate
                         else base_profit_rate + 3 / 100)
      in profit_rate + random_uniform (- (1 / 100)) (1 / 100) r)"

text \<open>
  Lines 538-553: status and outstanding balance, before the final rounding. The products
  are exact; the doubles of the code differ from them by binary rounding, which can move
  the stored cent of a balance that lies at a 2-decimal tie. The statements below use the
  balance for its sign and bounds and at explicit inputs away from ties only.
\<close>

definition resolve_status ::
  "date \<Rightarrow> real \<Rightarrow> date \<Rightarrow> date \<Rightarrow> real \<Rightarrow> real \<Rightarrow> error + (loan_status \<times> real)" where
  "resolve_status now amount disbursement maturity r_default r_recovery =
     (if r_default < DEFAULT_RATE
      then Inr (Defaulted, amount * random_uniform (3 / 10) (9 / 10) r_recovery)
      else if maturity < now then Inr (PaidOff, 0)
      else
        let days_elapsed = now - disbursement;
            total_days = maturity - disbursement
        in if total_days > 0
           then (case py_div (of_int days_elapsed) (of_int total_days) of
                   Inl e \<Rightarrow> Inl e
                 | Inr q \<Rightarrow> Inr (Active, amount * (1 - min q 1 * (7 / 10))))
           else Inr (Active, amount))"

definition generate_business_loan ::
  "date \<Rightarrow> nat list \<Rightarrow> borrower_row \<Rightarrow> loan_rand \<Rightarrow> error + loan" where
  "generate_business_loan now employee_ids borrower rnd =
     (case draw_loan_amount (credit_score borrower) (rnd_amount rnd) of
        Inl e \<Rightarrow> Inl e
      | Inr amount \<Rightarrow>
     (case date_between START_DATE END_DATE (rnd_disbursement rnd) of
        Inl e \<Rightarrow> Inl e
      | Inr disbursement \<Rightarrow>
     (case random_choice [12, 24, 36, 48, 60] (rnd_term rnd) of
        Inl e \<Rightarrow> Inl e
      | Inr loan_term_months \<Rightarrow>
     (let maturity = disbursement + loan_term_months * 30;
          rate = draw_profit_rate (credit_score borrower) (rnd_jitter rnd)
      in case resolve_status now (of_int amount) disbursement maturity
                (rnd_default rnd) (rnd_recovery rnd) of
        Inl e \<Rightarrow> Inl e
      | Inr (status, outstanding) \<Rightarrow>
     (case random_choice employee_ids (rnd_employee rnd) of
        Inl e \<Rightarrow> Inl e
      | Inr employee \<Rightarrow>
          Inr \<lparr>loan_borrower_id = borrower_id borrower,
               loan_amount = of_int amount,
               disbursement_date = disbursement,
               maturity_date = maturity,
               profit_rate = py_round rate 4,
               loan_status = status,
               approved_by_employee_id = employee,
               outstanding_balance = py_round outstanding 2\<rparr>)))))"

text \<open>The whole loop: the first exception aborts the stage.\<close>

fun generate_business_loans ::
  "date \<Rightarrow> nat list \<Rightarrow> (borrower_row \<times> loan_rand) list \<Rightarrow> error + loan list" where
  "generate_business_loans now employee_ids [] = Inr []"
| "generate_business_loans now employee_ids ((b, rnd) # rest) =
     (case generate_business_loan now employee_ids b rnd of
        Inl e \<Rightarrow> Inl e
      | Inr l \<Rightarrow>
          (case generate_business_loans now employee_ids rest of
             Inl e \<Rightarrow> Inl e
           | Inr ls \<Rightarrow> Inr (l # ls)))"

section \<open>Payment-history generator: \<^verbatim>\<open>generate_loan_payments\<close>\<close>

datatype payment_status = OnTime | Late | Missed

text \<open>
  \<^verbatim>\<open>random.choices(['On Time', 'Late', 'Missed'], weights=[0.95, 0.03, 0.02])[0]\<close> bisects
  the cumulative weights at the raw draw.
\<close>

definition random_choices_status :: "real \<Rightarrow> payment_status" where
  "random_choices_status r =
     (if r < 95 / 100 then OnTime else if r < 98 / 100 then Late else Missed)"

text \<open>A row of \<^verbatim>\<open>loan_payments\<close>, as written to the table (fields rounded to 2 decimals).\<close>

record payment =
  payment_loan_id :: nat
  payment_date :: date
  payment_amount :: real
  principal_amount :: real
  profit_amount :: real
  remaining_balance :: real
  payment_status :: payment_status

text \<open>
  The loop body computes the realised values of a payment and appends their roundings to
  \<^verbatim>\<open>all_payments\<close>. The model accumulates the realised values themselves and rounds them
  when the rows are written (\<open>store_payment\<close>), which gives the same rows and the same
  list length at every moment, and keeps the values before rounding available.
\<close>

record realized_payment =
  rp_loan_id :: nat
  rp_date :: date
  actual_payment :: real
  actual_principal :: real
  actual_profit :: real
  remaining :: real
  rp_status :: payment_status

definition store_payment :: "realized_payment \<Rightarrow> payment" where
  "store_payment y =
     \<lparr>payment_loan_id = rp_loan_id y,
      payment_date = rp_date y,
      payment_amount = py_round (actual_payment y) 2,
      principal_amount = py_round (actual_principal y) 2,
      profit_amount = py_round (actual_profit y) 2,
      remaining_balance = py_round (remaining y) 2,
      payment_status = rp_status y\<rparr>"

text \<open>The raw draws the payments of one loan consume, by payment number.\<close>

record payment_rand =
  rnd_count :: nat
  rnd_status :: "nat \<Rightarrow> real"
  rnd_late :: "nat \<Rightarrow> real"

text \<open>
  Lines 628-639: the realised payment, principal and profit of one instalment, in exact
  arithmetic. The doubles of the code differ from these values by binary rounding, so
  nothing is stated below about an equality of the three values that holds only exactly.
\<close>

definition split_payment ::
  "payment_status \<Rightarrow> real \<Rightarrow> real \<Rightarrow> real \<Rightarrow> real \<Rightarrow> error + (real \<times> real \<times> real)" where
  "split_payment status monthly_payment principal_portion profit_portion r =
     (case status of
        Missed \<Rightarrow> Inr (0, 0, 0)
      | Late \<Rightarrow>
          (let paid = monthly_payment * random_uniform (5 / 10) (9 / 10) r
           in case py_div principal_portion monthly_payment of
                Inl e \<Rightarrow> Inl e
              | Inr q1 \<Rightarrow>
                  (case py_div profit_portion monthly_payment of
                     Inl e \<Rightarrow> Inl e
                   | Inr q2 \<Rightarrow> Inr (paid, paid * q1, paid * q2)))
      | OnTime \<Rightarrow> Inr (monthly_payment, principal_portion, profit_portion))"

text \<open>
  Lines 612-655: the loop over \<^verbatim>\<open>range(num_loan_payments)\<close>. The first numeric argument
  counts the iterations left, the second is \<^verbatim>\<open>payment_num\<close>; \<open>acc\<close> is \<^verbatim>\<open>all_payments\<close>.
\<close>

fun payment_loop ::
  "nat \<Rightarrow> loan \<Rightarrow> date \<Rightarrow> nat \<Rightarrow> real \<Rightarrow> payment_rand \<Rightarrow> nat \<Rightarrow> nat \<Rightarrow> real \<Rightarrow>
   realized_payment list \<Rightarrow> error + realized_payment list" where
  "payment_loop lid l now num_payments monthly_payment rnd 0 i rem acc = Inr acc"
| "payment_loop lid l now num_payments monthly_payment rnd (Suc k) i rem acc =
     (let pay_date = disbursement_date l + 30 * (int i + 1)
      in if pay_date > now then Inr acc
         else
           let profit_portion = rem * (profit_rate l / 12);
               principal_portion = monthly_payment - profit_portion;
               status = random_choices_status (rnd_status rnd i)
           in case split_payment status monthly_payment principal_portion profit_portion
                     (rnd_late rnd i) of
                Inl e \<Rightarrow> Inl e
              | Inr (paid, paid_principal, paid_profit) \<Rightarrow>
                  (let rem' = max 0 (rem - paid_principal);
                       acc' = acc @ [\<lparr>rp_loan_id = lid,
                                      rp_date = pay_date,
                                      actual_payment = paid,
                                      actual_principal = paid_principal,
                                      actual_profit = paid_profit,
                                      remaining = rem',
                                      rp_status = status\<rparr>]
                   in if length acc' \<ge> num_payments then Inr acc'
                      else payment_loop lid l now num_payments monthly_payment rnd
                             k (Suc i) rem' acc'))"

text \<open>Lines 597-600: the period count and the flat instalment.\<close>

definition loan_months :: "loan \<Rightarrow> int" where
  "loan_months l = max 1 (py_int (of_int (maturity_date l - disbursement_date l) / 30))"

definition monthly_payment_of :: "loan \<Rightarrow> error + real" where
  "monthly_payment_of l =
     (let months = loan_months l;
          total_profit = loan_amount l * profit_rate l * (of_int months / 12);
          total_to_pay = loan_amount l + total_profit
      in py_div total_to_pay (of_int months))"

text \<open>Lines 603-609: how many payments the loop is asked for.\<close>

definition num_loan_payments :: "loan \<Rightarrow> date \<Rightarrow> nat \<Rightarrow> error + int" where
  "num_loan_payments l now k =
     (let months = loan_months l
      in if loan_status l = PaidOff then Inr months
         else if loan_status l = Defaulted
         then random_randint (py_int (of_int months * (3 / 10)))
                (py_int (of_int months * (7 / 10))) k
         else
           let months_elapsed = py_int (of_int (now - disbursement_date l) / 30)
           in Inr (min months_elapsed months))"

text \<open>Lines 588-655: the body of the loop over the loans, for one loan.\<close>

definition loan_payments ::
  "nat \<Rightarrow> loan \<Rightarrow> date \<Rightarrow> nat \<Rightarrow> payment_rand \<Rightarrow> realized_payment list \<Rightarrow>
   error + realized_payment list" where
  "loan_payments lid l now num_payments rnd acc =
     (case monthly_payment_of l of
        Inl e \<Rightarrow> Inl e
      | Inr monthly_payment \<Rightarrow>
          (case num_loan_payments l now (rnd_count rnd) of
             Inl e \<Rightarrow> Inl e
           | Inr n \<Rightarrow>
               payment_loop lid l now num_payments monthly_payment rnd
                 (nat n) 0 (loan_amount l) acc))"

text \<open>Lines 588-658: the loop over the loans, left once the quota is reached.\<close>

fun payments_of_loans ::
  "date \<Rightarrow> nat \<Rightarrow> ((nat \<times> loan) \<times> payment_rand) list \<Rightarrow> realized_payment list \<Rightarrow>
   error + realized_payment list" where
  "payments_of_loans now num_payments [] acc = Inr acc"
| "payments_of_loans now num_payments (((lid, l), rnd) # rest) acc =
     (case loan_payments lid l now num_payments rnd acc of
        Inl e \<Rightarrow> Inl e
      | Inr acc' \<Rightarrow>
          if length acc' \<ge> num_payments then Inr acc'
          else payments_of_loans now num_payments rest acc')"

text \<open>Line 660: the rows written, \<^verbatim>\<open>all_payments[:num_payments]\<close>.\<close>

definition generate_loan_payments ::
  "date \<Rightarrow> nat \<Rightarrow> ((nat \<times> loan) \<times> payment_rand) list \<Rightarrow> error + payment list" where
  "generate_loan_payments now num_payments loans =
     (case payments_of_loans now num_payments loans [] of
        Inl e \<Rightarrow> Inl e
      | Inr all_payments \<Rightarrow> Inr (map store_payment (take num_payments all_payments)))"

text \<open>
  The loans as the payment stage reads them back: \<^verbatim>\<open>loan_id\<close> is the table's
  autoincrement key, 1, 2, ... in insertion order.
\<close>

definition stored_loans :: "loan list \<Rightarrow> (nat \<times> loan) list" where
  "stored_loans ls = zip [1..<Suc (length ls)] ls"

text \<open>The two stages as \<^verbatim>\<open>main\<close> runs them, one after the other.\<close>

definition run_loans_and_payments ::
  "date \<Rightarrow> nat list \<Rightarrow> (borrower_row \<times> loan_rand) list \<Rightarrow> payment_rand list \<Rightarrow> nat \<Rightarrow>
   error + (loan list \<times> payment list)" where
  "run_loans_and_payments now employee_ids borrowers prnds num_payments =
     (case generate_business_loans now employee_ids borrowers of
        Inl e \<Rightarrow> Inl e
      | Inr ls \<Rightarrow>
          (case generate_loan_payments now num_payments (zip (stored_loans ls) prnds) of
             Inl e \<Rightarrow> Inl e
           | Inr ps \<Rightarrow> Inr (ls, ps)))"

section \<open>Subscription generator: one iteration of \<^verbatim>\<open>generate_sukuk_purchases\<close>\<close>

record sukuk_row =
  sukuk_id :: nat
  issue_date :: date
  minimum_investment :: real

record purchase =
  investor_id :: nat
  purchase_sukuk_id :: nat
  purchase_date :: date
  amount :: int
  units :: real
  processed_by_employee_id :: nat

text \<open>
  The raw draws of one iteration; the instrument row returned by \<^verbatim>\<open>sukuk_df.sample(1)\<close>
  is a parameter of the iteration.
\<close>

record purchase_rand =
  rnd_purchase_date :: nat
  rnd_purchase_amount :: nat
  rnd_investor :: nat
  rnd_processor :: nat

definition generate_sukuk_purchase ::
  "date \<Rightarrow> nat list \<Rightarrow> nat list \<Rightarrow> sukuk_row \<Rightarrow> purchase_rand \<Rightarrow> error + purchase" where
  "generate_sukuk_purchase now investor_ids employee_ids sukuk rnd =
     (let min_investment = minimum_investment sukuk;
          issue_date_obj = issue_date sukuk
      in case date_between issue_date_obj (min now (issue_date_obj + 365))
                (rnd_purchase_date rnd) of
           Inl e \<Rightarrow> Inl e
         | Inr bought \<Rightarrow>
         case random_randint (py_int min_investment) (py_int (min_investment * 50))
                (rnd_purchase_amount rnd) of
           Inl e \<Rightarrow> Inl e
         | Inr amt \<Rightarrow>
             (let unit_count = of_int amt / 1000
              in case random_choice investor_ids (rnd_investor rnd) of
                   Inl e \<Rightarrow> Inl e
                 | Inr investor \<Rightarrow>
                     (case random_choice employee_ids (rnd_processor rnd) of
                        Inl e \<Rightarrow> Inl e
                      | Inr employee \<Rightarrow>
                          Inr \<lparr>investor_id = investor,
                               purchase_sukuk_id = sukuk_id sukuk,
                               purchase_date = bought,
                               amount = amt,
                               units = unit_count,
                               processed_by_employee_id = employee\<rparr>)))"

section \<open>Distribution generator: \<^verbatim>\<open>generate_profit_distributions\<close>\<close>

text \<open>
  A row of the join the stage reads: the purchase and its instrument's return rate (the
  columns \<^verbatim>\<open>investor_id\<close> and \<^verbatim>\<open>sukuk_id\<close> of the join are not used by the stage).
\<close>

record purchase_row =
  purchase_id :: nat
  bought_on :: date
  amount_invested :: real
  expected_return_rate :: real

record distribution =
  dist_purchase_id :: nat
  distribution_date :: date
  dist_amount :: real
  period_start :: date
  period_end :: date
  dist_employee_id :: nat

record distribution_rand =
  rnd_noise :: "nat \<Rightarrow> real"
  rnd_dist_employee :: "nat \<Rightarrow> nat"

text \<open>
  Lines 695-716: the loop over \<^verbatim>\<open>range(min(quarters_since_purchase, 8))\<close>; the first numeric
  argument counts the iterations left, the second is \<^verbatim>\<open>quarter\<close>.
\<close>

fun distribution_loop ::
  "purchase_row \<Rightarrow> date \<Rightarrow> nat \<Rightarrow> nat list \<Rightarrow> distribution_rand \<Rightarrow> nat \<Rightarrow> nat \<Rightarrow>
   distribution list \<Rightarrow> error + distribution list" where
  "distribution_loop p now num_distributions employee_ids rnd 0 quarter acc = Inr acc"
| "distribution_loop p now num_distributions employee_ids rnd (Suc k) quarter acc =
     (let p_start = bought_on p + 90 * int quarter;
          p_end = p_start + 90;
          dist_date = p_end
      in if dist_date > now then Inr acc
         else
           let quarterly_profit =
                 (amount_invested p * expected_return_rate p / 4)
                 * random_uniform (9 / 10) (11 / 10) (rnd_noise rnd quarter)
           in case random_choice employee_ids (rnd_dist_employee rnd quarter) of
                Inl e \<Rightarrow> Inl e
              | Inr employee \<Rightarrow>
                  (let acc' = acc @ [\<lparr>dist_purchase_id = purchase_id p,
                                      distribution_date = dist_date,
                                      dist_amount = py_round quarterly_profit 2,
                                      period_start = p_start,
                                      period_end = p_end,
                                      dist_employee_id = employee\<rparr>]
                   in if length acc' \<ge> num_distributions then Inr acc'
                      else distribution_loop p now num_distributions employee_ids rnd
                             k (Suc quarter) acc'))"

text \<open>Line 693.\<close>

definition quarters_since_purchase :: "purchase_row \<Rightarrow> date \<Rightarrow> int" where
  "quarters_since_purchase p now = py_int (of_int (now - bought_on p) / 90)"

definition purchase_distributions ::
  "purchase_row \<Rightarrow> date \<Rightarrow> nat \<Rightarrow> nat list \<Rightarrow> distribution_rand \<Rightarrow> distribution list \<Rightarrow>
   error + distribution list" where
  "purchase_distributions p now num_distributions employee_ids rnd acc =
     distribution_loop p now num_distributions employee_ids rnd
       (nat (min (quarters_since_purchase p now) 8)) 0 acc"

text \<open>
  Lines 687-719: the loop over the sampled purchases. The argument \<open>sampled\<close> is the result of
  \<^verbatim>\<open>purchases_df.sample(min(len(purchases_df), num_distributions))\<close>, rows drawn without
  replacement, each with the draws its quarters consume.
\<close>

fun distributions_of_purchases ::
  "date \<Rightarrow> nat \<Rightarrow> nat list \<Rightarrow> (purchase_row \<times> distribution_rand) list \<Rightarrow>
   distribution list \<Rightarrow> error + distribution list" where
  "distributions_of_purchases now num_distributions employee_ids [] acc = Inr acc"
| "distributions_of_purchases now num_distributions employee_ids ((p, rnd) # rest) acc =
     (case purchase_distributions p now num_distributions employee_ids rnd acc of
        Inl e \<Rightarrow> Inl e
      | Inr acc' \<Rightarrow>
          if length acc' \<ge> num_distributions then Inr acc'
          else distributions_of_purchases now num_distributions employee_ids rest acc')"

definition generate_profit_distributions ::
  "date \<Rightarrow> nat \<Rightarrow> nat list \<Rightarrow> (purchase_row \<times> distribution_rand) list \<Rightarrow>
   error + distribution list" where
  "generate_profit_distributions now num_distributions employee_ids sampled =
     (case distributions_of_purchases now num_distributions employee_ids sampled [] of
        Inl e \<Rightarrow> Inl e
      | Inr distributions \<Rightarrow> Inr (take num_distributions distributions))"

text \<open>
  The windows of one purchase, in order: the first starts at quarter \<open>q\<close> after the purchase
  date, each is 90 days long, and each starts 90 days after the one before.
\<close>

fun windows_from :: "purchase_row \<Rightarrow> nat \<Rightarrow> distribution list \<Rightarrow> bool" where
  "windows_from p q [] = True"
| "windows_from p q (d # ds) =
     (dist_purchase_id d = purchase_id p \<and>
      period_start d = bought_on p + 90 * int q \<and>
      period_end d = period_start d + 90 \<and>
      windows_from p (Suc q) ds)"

text \<open>
  What one pass of the payment loop leaves in a realised payment \<open>y\<close>, given the payment
  number \<open>i\<close> and the running balance \<open>before\<close> the pass; and the same along a list of
  consecutive payments, each starting from the balance the previous one left.
\<close>

definition realized_step ::
  "loan \<Rightarrow> real \<Rightarrow> payment_rand \<Rightarrow> nat \<Rightarrow> real \<Rightarrow> realized_payment \<Rightarrow> bool" where
  "realized_step l monthly_payment rnd i before y =
     (let profit_portion = before * (profit_rate l / 12);
          principal_portion = monthly_payment - profit_portion
      in rp_date y = disbursement_date l + 30 * (int i + 1) \<and>
         rp_status y = random_choices_status (rnd_status rnd i) \<and>
         split_payment (rp_status y) monthly_payment principal_portion profit_portion
             (rnd_late rnd i)
           = Inr (actual_payment y, actual_principal y, actual_profit y) \<and>
         remaining y = max 0 (before - actual_principal y))"

fun realized_chain ::
  "loan \<Rightarrow> real \<Rightarrow> payment_rand \<Rightarrow> nat \<Rightarrow> real \<Rightarrow> realized_payment list \<Rightarrow> bool" where
  "realized_chain l monthly_payment rnd i before [] = True"
| "realized_chain l monthly_payment rnd i before (y # ys) =
     (realized_step l monthly_payment rnd i before y \<and>
      realized_chain l monthly_payment rnd (Suc i) (remaining y) ys)"

section \<open>Facts about the builtins\<close>

lemma half_even_of_int: "half_even (of_int k) = k"
  by (simp add: half_even_def)

lemma half_even_bounds: "\<lfloor>y\<rfloor> \<le> half_even y \<and> half_even y \<le> \<lceil>y\<rceil>"
  unfolding half_even_def Let_def
  by (auto simp: ceiling_altdef)

lemma half_even_mono: "x \<le> y \<Longrightarrow> half_even x \<le> half_even y"
proof -
  assume xy: "x \<le> y"
  have fl: "\<lfloor>x\<rfloor> \<le> \<lfloor>y\<rfloor>" using xy by (rule floor_mono)
  show ?thesis
  proof (cases "\<lfloor>x\<rfloor> = \<lfloor>y\<rfloor>")
    case True
    then show ?thesis using xy unfolding half_even_def Let_def by auto
  next
    case False
    then have lt: "\<lfloor>x\<rfloor> + 1 \<le> \<lfloor>y\<rfloor>" using fl by linarith
    have "half_even x \<le> \<lfloor>x\<rfloor> + 1" unfolding half_even_def Let_def by auto
    moreover have "\<lfloor>y\<rfloor> \<le> half_even y" using half_even_bounds by blast
    ultimately show ?thesis using lt by linarith
  qed
qed

lemma py_round_mono: "x \<le> y \<Longrightarrow> py_round x n \<le> py_round y n"
  unfolding py_round_def
  by (intro divide_right_mono half_even_mono mult_right_mono iffD2[OF of_int_le_iff]) simp_all

lemma py_round_fixed: "py_round (of_int k / 10 ^ n) n = of_int k / 10 ^ n"
  by (simp add: py_round_def half_even_of_int)

lemma py_round_ge: "of_int k / 10 ^ n \<le> x \<Longrightarrow> of_int k / 10 ^ n \<le> py_round x n"
  using py_round_mono[of "of_int k / 10 ^ n" x n] by (simp add: py_round_fixed)

lemma py_round_le: "x \<le> of_int k / 10 ^ n \<Longrightarrow> py_round x n \<le> of_int k / 10 ^ n"
  using py_round_mono[of x "of_int k / 10 ^ n" n] by (simp add: py_round_fixed)

lemma py_round_int_ge: "of_int k \<le> x \<Longrightarrow> of_int k \<le> py_round x n"
  using py_round_ge[of "k * 10 ^ n" n x] by simp

lemma py_round_int_le: "x \<le> of_int k \<Longrightarrow> py_round x n \<le> of_int k"
  using py_round_le[of x "k * 10 ^ n" n] by simp

lemma py_round_zero: "py_round 0 n = 0"
  by (simp add: py_round_def half_even_def)

lemma random_randint_range:
  assumes "random_randint a b k = Inr v"
  shows "a \<le> v \<and> v \<le> b"
proof -
  have ab: "a \<le> b" and v: "v = a + int k mod (b - a + 1)"
    using assms by (auto simp: random_randint_def split: if_splits)
  have "0 < b - a + 1" using ab by linarith
  then have "0 \<le> int k mod (b - a + 1) \<and> int k mod (b - a + 1) < b - a + 1"
    using pos_mod_sign pos_mod_bound by blast
  then show ?thesis using v by linarith
qed

lemma random_randint_total: "a \<le> b \<Longrightarrow> \<exists>v. random_randint a b k = Inr v"
  by (simp add: random_randint_def)

lemma random_uniform_range:
  assumes "unit_draw r" and "a \<le> b"
  shows "a \<le> random_uniform a b r \<and> random_uniform a b r \<le> b"
proof -
  have "0 \<le> (b - a) * r" using assms by (simp add: unit_draw_def)
  moreover have "(b - a) * r \<le> (b - a) * 1"
    using assms by (intro mult_left_mono) (simp_all add: unit_draw_def)
  ultimately show ?thesis by (simp add: random_uniform_def)
qed

lemma random_choice_mem: "random_choice xs k = Inr x \<Longrightarrow> x \<in> set xs"
  by (auto simp: random_choice_def split: if_splits)

lemma random_choice_total: "xs \<noteq> [] \<Longrightarrow> \<exists>x. random_choice xs k = Inr x"
  by (simp add: random_choice_def)

lemma date_between_range:
  assumes "date_between s e k = Inr d"
  shows "s \<le> d \<and> d \<le> e"
proof -
  have se: "s \<le> e" and d: "d = s + int k mod (e - s + 1)"
    using assms by (auto simp: date_between_def split: if_splits)
  have "0 < e - s + 1" using se by linarith
  then have "0 \<le> int k mod (e - s + 1) \<and> int k mod (e - s + 1) < e - s + 1"
    using pos_mod_sign pos_mod_bound by blast
  then show ?thesis using d by linarith
qed

lemma date_between_total: "s \<le> e \<Longrightarrow> \<exists>d. date_between s e k = Inr d"
  by (simp add: date_between_def)

lemma date_between_empty: "e < s \<Longrightarrow> date_between s e k = Inl ValueError"
  by (simp add: date_between_def)

section \<open>Facts about the loan generator\<close>

lemma draw_loan_amount_range:
  "draw_loan_amount cs k = Inr v \<Longrightarrow>
     (750 \<le> cs \<longrightarrow> 100000 \<le> v \<and> v \<le> 500000) \<and>
     (650 \<le> cs \<and> cs < 750 \<longrightarrow> 50000 \<le> v \<and> v \<le> 250000) \<and>
     (cs < 650 \<longrightarrow> 10000 \<le> v \<and> v \<le> 100000)"
  by (auto simp: draw_loan_amount_def split: if_splits dest: random_randint_range)

lemma draw_loan_amount_total: "\<exists>v. draw_loan_amount cs k = Inr v"
  by (simp add: draw_loan_amount_def random_randint_def)

lemma resolve_status_total: "\<exists>st out. resolve_status now a d m r1 r2 = Inr (st, out)"
  by (simp add: resolve_status_def py_div_def Let_def)

lemma generate_business_loan_fields:
  assumes "generate_business_loan now emp b rnd = Inr l"
  shows "\<exists>amt months st out.
           draw_loan_amount (credit_score b) (rnd_amount rnd) = Inr amt \<and>
           months \<in> {12, 24, 36, 48, 60} \<and>
           resolve_status now (of_int amt) (disbursement_date l) (maturity_date l)
             (rnd_default rnd) (rnd_recovery rnd) = Inr (st, out) \<and>
           loan_amount l = of_int amt \<and>
           date_between START_DATE END_DATE (rnd_disbursement rnd)
             = Inr (disbursement_date l) \<and>
           maturity_date l = disbursement_date l + months * 30 \<and>
           profit_rate l = py_round (draw_profit_rate (credit_score b) (rnd_jitter rnd)) 4 \<and>
           loan_status l = st \<and>
           outstanding_balance l = py_round out 2"
  using assms
  unfolding generate_business_loan_def Let_def
  by (auto split: sum.splits prod.splits dest!: random_choice_mem)

lemma generate_business_loan_total:
  assumes "emp \<noteq> []"
  shows "\<exists>l. generate_business_loan now emp b rnd = Inr l"
proof -
  obtain amt where a: "draw_loan_amount (credit_score b) (rnd_amount rnd) = Inr amt"
    using draw_loan_amount_total by blast
  obtain t where t: "random_choice [12, 24, 36, 48, 60::int] (rnd_term rnd) = Inr t"
    using random_choice_total[of "[12, 24, 36, 48, 60::int]"] by auto
  obtain d where d: "date_between START_DATE END_DATE (rnd_disbursement rnd) = Inr d"
    using date_between_total[of START_DATE END_DATE]
    by (auto simp: START_DATE_def END_DATE_def)
  obtain st out where s: "resolve_status now (of_int amt) d (d + t * 30)
       (rnd_default rnd) (rnd_recovery rnd) = Inr (st, out)"
    using resolve_status_total by blast
  obtain e where e: "random_choice emp (rnd_employee rnd) = Inr e"
    using random_choice_total[OF assms] by blast
  show ?thesis
    unfolding generate_business_loan_def Let_def
    by (simp add: a d t s e)
qed

lemma draw_loan_amount_by_range:
  "draw_loan_amount cs k =
     random_randint (fst (loan_amount_range cs)) (snd (loan_amount_range cs)) k"
  by (simp add: draw_loan_amount_def loan_amount_range_def)

section \<open>Principal by credit-score tier\<close>

text \<open>
  C7, as claimed: the three sampling ranges are pairwise disjoint. They are not: the
  principal 100000 is drawn in each of the three tiers (credit scores 800, 700 and 600).
\<close>

theorem loan_amount_ranges_overlap:
  "draw_loan_amount 800 0 = Inr 100000 \<and>
   draw_loan_amount 700 50000 = Inr 100000 \<and>
   draw_loan_amount 600 90000 = Inr 100000"
  by (simp add: draw_loan_amount_def random_randint_def)

text \<open>
  C7, amended: the principal of every generated loan is drawn by \<^verbatim>\<open>randint\<close> from the
  range of its credit-score tier (at least 750: 100000 to 500000; 650 to 749: 50000 to
  250000; below 650: 10000 to 100000) and lies in that range; a higher tier has a strictly
  higher ceiling than a lower one; adjacent ranges overlap (the floor of the higher tier is
  not above the ceiling of the lower one).
\<close>

theorem loan_amount_by_tier:
  assumes "generate_business_loan now emp b rnd = Inr l"
  shows "draw_loan_amount (credit_score b) (rnd_amount rnd)
           = random_randint (fst (loan_amount_range (credit_score b)))
               (snd (loan_amount_range (credit_score b))) (rnd_amount rnd) \<and>
         of_int (fst (loan_amount_range (credit_score b))) \<le> loan_amount l \<and>
         loan_amount l \<le> of_int (snd (loan_amount_range (credit_score b))) \<and>
         (\<forall>lo mid hi. lo < 650 \<and> 650 \<le> mid \<and> mid < 750 \<and> 750 \<le> hi \<longrightarrow>
            snd (loan_amount_range lo) < snd (loan_amount_range mid) \<and>
            snd (loan_amount_range mid) < snd (loan_amount_range hi) \<and>
            fst (loan_amount_range mid) \<le> snd (loan_amount_range lo) \<and>
            fst (loan_amount_range hi) \<le> snd (loan_amount_range mid))"
proof -
  obtain amt where a: "draw_loan_amount (credit_score b) (rnd_amount rnd) = Inr amt"
    and l: "loan_amount l = of_int amt"
    using generate_business_loan_fields[OF assms] by blast
  have "fst (loan_amount_range (credit_score b)) \<le> amt \<and>
        amt \<le> snd (loan_amount_range (credit_score b))"
    using a random_randint_range unfolding draw_loan_amount_by_range by blast
  then have "of_int (fst (loan_amount_range (credit_score b))) \<le> loan_amount l \<and>
         loan_amount l \<le> of_int (snd (loan_amount_range (credit_score b)))"
    unfolding l by simp
  moreover have "\<forall>lo mid hi. lo < 650 \<and> 650 \<le> mid \<and> mid < 750 \<and> 750 \<le> hi \<longrightarrow>
            snd (loan_amount_range lo) < snd (loan_amount_range mid) \<and>
            snd (loan_amount_range mid) < snd (loan_amount_range hi) \<and>
            fst (loan_amount_range mid) \<le> snd (loan_amount_range lo) \<and>
            fst (loan_amount_range hi) \<le> snd (loan_amount_range mid)"
    by (simp add: loan_amount_range_def)
  ultimately show ?thesis using draw_loan_amount_by_range by blast
qed

theorem loan_amount_by_tier_witness:
  "generate_business_loan 739500 [7] \<lparr>borrower_id = 1, credit_score = 700\<rparr>
     \<lparr>rnd_amount = 50000, rnd_disbursement = 0, rnd_term = 2, rnd_jitter = 1 / 2,
      rnd_default = 1 / 2, rnd_recovery = 1 / 2, rnd_employee = 0\<rparr>
   = Inr \<lparr>loan_borrower_id = 1, loan_amount = 100000, disbursement_date = 737425,
          maturity_date = 738505, profit_rate = 10 / 100, loan_status = PaidOff,
          approved_by_employee_id = 7, outstanding_balance = 0\<rparr> \<and>
   (50000::real) \<le> 100000 \<and> (100000::real) \<le> 250000 \<and>
   snd (loan_amount_range 600) < snd (loan_amount_range 700) \<and>
   snd (loan_amount_range 700) < snd (loan_amount_range 800) \<and>
   fst (loan_amount_range 700) \<le> snd (loan_amount_range 600) \<and>
   fst (loan_amount_range 800) \<le> snd (loan_amount_range 700)"
proof -
  have g: "generate_business_loan 739500 [7] \<lparr>borrower_id = 1, credit_score = 700\<rparr>
     \<lparr>rnd_amount = 50000, rnd_disbursement = 0, rnd_term = 2, rnd_jitter = 1 / 2,
      rnd_default = 1 / 2, rnd_recovery = 1 / 2, rnd_employee = 0\<rparr>
   = Inr \<lparr>loan_borrower_id = 1, loan_amount = 100000, disbursement_date = 737425,
          maturity_date = 738505, profit_rate = 10 / 100, loan_status = PaidOff,
          approved_by_employee_id = 7, outstanding_balance = 0\<rparr>"
    by (simp add: generate_business_loan_def draw_loan_amount_def random_randint_def
        date_between_def START_DATE_def END_DATE_def random_choice_def draw_profit_rate_def
        random_uniform_def resolve_status_def DEFAULT_RATE_def py_round_def half_even_def)
  have "(600::int) < 650 \<and> (650::int) \<le> 700 \<and> (700::int) < 750 \<and> (750::int) \<le> 800"
    by simp
  then show ?thesis using g loan_amount_by_tier[OF g] by (simp add: loan_amount_range_def)
qed

section \<open>Status and outstanding balance of a loan\<close>

lemma resolve_status_defaulted:
  "r1 < DEFAULT_RATE \<Longrightarrow>
   resolve_status now a d m r1 r2 = Inr (Defaulted, a * random_uniform (3 / 10) (9 / 10) r2)"
  by (simp add: resolve_status_def)

lemma resolve_status_paid_off:
  "\<not> r1 < DEFAULT_RATE \<Longrightarrow> m < now \<Longrightarrow> resolve_status now a d m r1 r2 = Inr (PaidOff, 0)"
  by (simp add: resolve_status_def)

lemma resolve_status_active:
  "\<not> r1 < DEFAULT_RATE \<Longrightarrow> \<not> m < now \<Longrightarrow> d < m \<Longrightarrow>
   resolve_status now a d m r1 r2 =
     Inr (Active, a * (1 - min (of_int (now - d) / of_int (m - d)) 1 * (7 / 10)))"
  by (simp add: resolve_status_def py_div_def Let_def)

lemma defaulted_balance_bounds:
  fixes amt :: int
  assumes "10000 \<le> amt" and "unit_draw r"
  shows "0 < py_round (of_int amt * random_uniform (3 / 10) (9 / 10) r) 2 \<and>
         py_round (of_int amt * random_uniform (3 / 10) (9 / 10) r) 2 < of_int amt"
proof -
  let ?u = "random_uniform (3 / 10) (9 / 10) r"
  have u: "3 / 10 \<le> ?u \<and> ?u \<le> 9 / 10"
    using random_uniform_range[OF assms(2), of "3 / 10" "9 / 10"] by simp
  have a: "(10000::real) \<le> of_int amt" using assms(1) by linarith
  have lo: "real_of_int amt * (3 / 10) \<le> real_of_int amt * ?u"
    using u a by (intro mult_left_mono) simp_all
  have hi: "real_of_int amt * ?u \<le> real_of_int amt * (9 / 10)"
    using u a by (intro mult_left_mono) simp_all
  have "(3000::real) \<le> real_of_int amt * (3 / 10)" using a by linarith
  then have "real_of_int 3000 \<le> real_of_int amt * ?u" using lo by linarith
  then have 1: "of_int 3000 \<le> py_round (real_of_int amt * ?u) 2" by (rule py_round_int_ge)
  have "real_of_int amt * (9 / 10) \<le> real_of_int amt - 1000" using a by linarith
  then have "real_of_int amt * ?u \<le> real_of_int amt - 1000" using hi by linarith
  then have "real_of_int amt * ?u \<le> real_of_int (amt - 1000)" by simp
  then have 2: "py_round (real_of_int amt * ?u) 2 \<le> of_int (amt - 1000)"
    by (rule py_round_int_le)
  show ?thesis using 1 2 by simp
qed

lemma active_balance_bounds:
  fixes amt :: int
  assumes "0 \<le> amt"
  shows "0 \<le> py_round (of_int amt * (1 - min q 1 * (7 / 10))) 2"
    and "0 \<le> q \<Longrightarrow> py_round (of_int amt * (1 - min q 1 * (7 / 10))) 2 \<le> of_int amt"
proof -
  have a: "(0::real) \<le> of_int amt" using assms by simp
  have "0 \<le> 1 - min q 1 * (7 / 10)" by (simp add: min_def)
  then have "of_int 0 \<le> real_of_int amt * (1 - min q 1 * (7 / 10))" using a by simp
  then have "of_int 0 \<le> py_round (real_of_int amt * (1 - min q 1 * (7 / 10))) 2"
    by (rule py_round_int_ge)
  then show "0 \<le> py_round (of_int amt * (1 - min q 1 * (7 / 10))) 2" by simp
  assume q: "0 \<le> q"
  then have "1 - min q 1 * (7 / 10) \<le> 1" by (simp add: min_def)
  then have "real_of_int amt * (1 - min q 1 * (7 / 10)) \<le> real_of_int amt * 1"
    using a by (intro mult_left_mono) simp_all
  then have "real_of_int amt * (1 - min q 1 * (7 / 10)) \<le> of_int amt" by simp
  then show "py_round (of_int amt * (1 - min q 1 * (7 / 10))) 2 \<le> of_int amt"
    by (rule py_round_int_le)
qed

text \<open>
  What holds of every generated loan: the status follows the priority order; the stored
  balance is never negative; it is zero for Paid Off and strictly between zero and the
  principal for Defaulted; and it does not exceed the principal when the disbursement date
  is not after the date of the run, so for every loan once the run is dated \<open>END_DATE\<close> or
  later.
\<close>

lemma loan_balance_bounds:
  assumes emp: "emp \<noteq> []" and rec: "unit_draw (rnd_recovery rnd)"
  shows "\<exists>l. generate_business_loan now emp b rnd = Inr l \<and>
     (rnd_default rnd < DEFAULT_RATE \<longrightarrow> loan_status l = Defaulted) \<and>
     (\<not> rnd_default rnd < DEFAULT_RATE \<and> maturity_date l < now \<longrightarrow>
        loan_status l = PaidOff) \<and>
     (\<not> rnd_default rnd < DEFAULT_RATE \<and> \<not> maturity_date l < now \<longrightarrow>
        loan_status l = Active) \<and>
     0 \<le> outstanding_balance l \<and>
     (disbursement_date l \<le> now \<longrightarrow> outstanding_balance l \<le> loan_amount l) \<and>
     (END_DATE \<le> now \<longrightarrow> outstanding_balance l \<le> loan_amount l) \<and>
     (loan_status l = PaidOff \<longrightarrow> outstanding_balance l = 0) \<and>
     (loan_status l = Defaulted \<longrightarrow>
        0 < outstanding_balance l \<and> outstanding_balance l < loan_amount l)"
proof -
  obtain l where g: "generate_business_loan now emp b rnd = Inr l"
    using generate_business_loan_total[OF emp] by blast
  obtain amt months st out where
    a: "draw_loan_amount (credit_score b) (rnd_amount rnd) = Inr amt" and
    m: "months \<in> {12, 24, 36, 48, 60}" and
    r: "resolve_status now (of_int amt) (disbursement_date l) (maturity_date l)
          (rnd_default rnd) (rnd_recovery rnd) = Inr (st, out)" and
    la: "loan_amount l = of_int amt" and
    db: "date_between START_DATE END_DATE (rnd_disbursement rnd) = Inr (disbursement_date l)" and
    md: "maturity_date l = disbursement_date l + months * 30" and
    ls: "loan_status l = st" and
    ob: "outstanding_balance l = py_round out 2"
    using generate_business_loan_fields[OF g] by blast
  have amt: "10000 \<le> amt" using draw_loan_amount_range[OF a] by linarith
  have dm: "disbursement_date l < maturity_date l" using m md by auto
  have de: "disbursement_date l \<le> END_DATE" using date_between_range[OF db] by simp
  let ?q = "real_of_int (now - disbursement_date l)
            / real_of_int (maturity_date l - disbursement_date l)"
  consider (D) "rnd_default rnd < DEFAULT_RATE"
    | (P) "\<not> rnd_default rnd < DEFAULT_RATE" "maturity_date l < now"
    | (A) "\<not> rnd_default rnd < DEFAULT_RATE" "\<not> maturity_date l < now"
    by blast
  then have "(rnd_default rnd < DEFAULT_RATE \<longrightarrow> loan_status l = Defaulted) \<and>
     (\<not> rnd_default rnd < DEFAULT_RATE \<and> maturity_date l < now \<longrightarrow>
        loan_status l = PaidOff) \<and>
     (\<not> rnd_default rnd < DEFAULT_RATE \<and> \<not> maturity_date l < now \<longrightarrow>
        loan_status l = Active) \<and>
     0 \<le> outstanding_balance l \<and>
     (disbursement_date l \<le> now \<longrightarrow> outstanding_balance l \<le> loan_amount l) \<and>
     (END_DATE \<le> now \<longrightarrow> outstanding_balance l \<le> loan_amount l) \<and>
     (loan_status l = PaidOff \<longrightarrow> outstanding_balance l = 0) \<and>
     (loan_status l = Defaulted \<longrightarrow>
        0 < outstanding_balance l \<and> outstanding_balance l < loan_amount l)"
  proof cases
    case D
    have so: "st = Defaulted"
         "out = of_int amt * random_uniform (3 / 10) (9 / 10) (rnd_recovery rnd)"
      using r resolve_status_defaulted[OF D] by simp_all
    show ?thesis
      using D defaulted_balance_bounds[OF amt rec] by (simp add: so ls ob la)
  next
    case P
    have so: "st = PaidOff" "out = 0"
      using r resolve_status_paid_off[OF P] by simp_all
    show ?thesis
      using P amt by (simp add: so ls ob la py_round_zero)
  next
    case A
    have so: "st = Active" "out = of_int amt * (1 - min ?q 1 * (7 / 10))"
      using r resolve_status_active[OF A dm] by simp_all
    have a0: "0 \<le> amt" using amt by linarith
    have q: "disbursement_date l \<le> now \<Longrightarrow> 0 \<le> ?q" using dm by simp
    have q': "END_DATE \<le> now \<Longrightarrow> 0 \<le> ?q" using q de by linarith
    show ?thesis
      using A active_balance_bounds[OF a0, of ?q] q q' by (simp add: so ls ob la)
  qed
  then show ?thesis using g by blast
qed

text \<open>
  C1: status and outstanding balance are resolved in priority order (Defaulted on a draw
  below 0.05, else Paid Off with balance 0 when the maturity date is in the past, else
  Active with balance = principal * (1 - min(elapsed/term, 1) * 0.7)), and the balance of
  an Active loan is never negative and never exceeds the principal. The code clamps the
  progress from above only (\<^verbatim>\<open>min(days_elapsed / total_days, 1.0)\<close>) and draws
  disbursement dates up to \<open>END_DATE\<close> whatever the clock reads. On a run dated before a
  loan's disbursement the elapsed time is negative and the stored balance exceeds the
  principal: below, the clock is 360 days before the disbursement of a 12-month loan of
  100000, which is stored as Active with a balance of 170000.
\<close>

theorem active_balance_exceeds_principal:
  "generate_business_loan 738830 [7] \<lparr>borrower_id = 1, credit_score = 800\<rparr>
     \<lparr>rnd_amount = 0, rnd_disbursement = 1765, rnd_term = 0, rnd_jitter = 1 / 2,
      rnd_default = 1 / 2, rnd_recovery = 1 / 2, rnd_employee = 0\<rparr>
   = Inr \<lparr>loan_borrower_id = 1, loan_amount = 100000, disbursement_date = 739190,
          maturity_date = 739550, profit_rate = 8 / 100, loan_status = Active,
          approved_by_employee_id = 7, outstanding_balance = 170000\<rparr>"
  by (simp add: generate_business_loan_def draw_loan_amount_def random_randint_def
      date_between_def START_DATE_def END_DATE_def random_choice_def draw_profit_rate_def
      random_uniform_def resolve_status_def DEFAULT_RATE_def py_round_def half_even_def
      py_div_def)

section \<open>Unit count of a purchase\<close>

lemma py_int_mono:
  assumes "x \<le> y"
  shows "py_int x \<le> py_int y"
proof (cases "0 \<le> x")
  case True
  then show ?thesis using assms by (simp add: py_int_def floor_mono)
next
  case False
  show ?thesis
  proof (cases "0 \<le> y")
    case True
    have px: "py_int x = \<lceil>x\<rceil>" using False by (simp add: py_int_def)
    have py: "py_int y = \<lfloor>y\<rfloor>" using True by (simp add: py_int_def)
    have "\<lceil>x\<rceil> \<le> 0" using False by (simp add: ceiling_le_iff)
    moreover have "0 \<le> \<lfloor>y\<rfloor>" using True by simp
    ultimately show ?thesis unfolding px py by linarith
  next
    case y: False
    then show ?thesis using False assms by (simp add: py_int_def ceiling_mono)
  qed
qed

lemma generate_sukuk_purchase_fields:
  assumes "generate_sukuk_purchase now ivs emp sukuk rnd = Inr p"
  shows "units p = of_int (amount p) / 1000 \<and>
         random_randint (py_int (minimum_investment sukuk))
           (py_int (minimum_investment sukuk * 50)) (rnd_purchase_amount rnd) = Inr (amount p)"
  using assms unfolding generate_sukuk_purchase_def Let_def
  by (auto split: sum.splits)

text \<open>
  C9, as claimed: the unit count is the amount divided by the instrument's minimum
  subscription unit. The code divides by the constant 1000 (``each unit is 1000''): a
  purchase of 5000 in an instrument whose minimum investment is 5000 has 5 units, not 1.
\<close>

theorem units_not_by_minimum_investment:
  "generate_sukuk_purchase 739500 [3] [7]
     \<lparr>sukuk_id = 1, issue_date = 738000, minimum_investment = 5000\<rparr>
     \<lparr>rnd_purchase_date = 0, rnd_purchase_amount = 0, rnd_investor = 0, rnd_processor = 0\<rparr>
   = Inr \<lparr>investor_id = 3, purchase_sukuk_id = 1, purchase_date = 738000, amount = 5000,
          units = 5, processed_by_employee_id = 7\<rparr> \<and>
   real_of_int 5000
     / minimum_investment \<lparr>sukuk_id = 1, issue_date = 738000, minimum_investment = 5000\<rparr> = 1"
  by (simp add: generate_sukuk_purchase_def date_between_def random_randint_def py_int_def
      random_choice_def)

text \<open>
  C9, amended: for every generated purchase, the unit count equals the purchase amount
  divided by the fixed unit size 1000; it equals the amount divided by the instrument's
  minimum investment when that minimum is 1000. A purchase is generated whenever the
  investor and employee pools are not empty, the minimum investment is not negative and the
  instrument's issue date is not after the date of the run.
\<close>

theorem units_per_thousand:
  "(\<forall>p. generate_sukuk_purchase now ivs emp sukuk rnd = Inr p \<longrightarrow>
        units p = of_int (amount p) / 1000 \<and>
        (minimum_investment sukuk = 1000 \<longrightarrow>
           units p = of_int (amount p) / minimum_investment sukuk)) \<and>
   (ivs \<noteq> [] \<and> emp \<noteq> [] \<and> 0 \<le> minimum_investment sukuk \<and> issue_date sukuk \<le> now \<longrightarrow>
      (\<exists>p. generate_sukuk_purchase now ivs emp sukuk rnd = Inr p))"
proof -
  have formula: "\<forall>p. generate_sukuk_purchase now ivs emp sukuk rnd = Inr p \<longrightarrow>
        units p = of_int (amount p) / 1000 \<and>
        (minimum_investment sukuk = 1000 \<longrightarrow>
           units p = of_int (amount p) / minimum_investment sukuk)"
    using generate_sukuk_purchase_fields by auto
  have exists: "ivs \<noteq> [] \<and> emp \<noteq> [] \<and> 0 \<le> minimum_investment sukuk \<and>
      issue_date sukuk \<le> now \<longrightarrow>
      (\<exists>p. generate_sukuk_purchase now ivs emp sukuk rnd = Inr p)"
  proof
    assume h: "ivs \<noteq> [] \<and> emp \<noteq> [] \<and> 0 \<le> minimum_investment sukuk \<and>
      issue_date sukuk \<le> now"
    have "issue_date sukuk \<le> min now (issue_date sukuk + 365)" using h by simp
    then obtain d where d: "date_between (issue_date sukuk) (min now (issue_date sukuk + 365))
        (rnd_purchase_date rnd) = Inr d"
      using date_between_total by blast
    have "minimum_investment sukuk \<le> minimum_investment sukuk * 50" using h by simp
    then have "py_int (minimum_investment sukuk) \<le> py_int (minimum_investment sukuk * 50)"
      by (rule py_int_mono)
    then obtain amt where a: "random_randint (py_int (minimum_investment sukuk))
           (py_int (minimum_investment sukuk * 50)) (rnd_purchase_amount rnd) = Inr amt"
      using random_randint_total by blast
    obtain i where i: "random_choice ivs (rnd_investor rnd) = Inr i"
      using random_choice_total h by blast
    obtain e where e: "random_choice emp (rnd_processor rnd) = Inr e"
      using random_choice_total h by blast
    show "\<exists>p. generate_sukuk_purchase now ivs emp sukuk rnd = Inr p"
      unfolding generate_sukuk_purchase_def Let_def by (simp add: d a i e)
  qed
  show ?thesis using formula exists by blast
qed

theorem units_per_thousand_witness:
  "[3::nat] \<noteq> [] \<and> [7::nat] \<noteq> [] \<and>
   0 \<le> minimum_investment \<lparr>sukuk_id = 1, issue_date = 738000, minimum_investment = 1000\<rparr> \<and>
   issue_date \<lparr>sukuk_id = 1, issue_date = 738000, minimum_investment = 1000\<rparr> \<le> 739500 \<and>
   (\<exists>p. generate_sukuk_purchase 739500 [3] [7]
           \<lparr>sukuk_id = 1, issue_date = 738000, minimum_investment = 1000\<rparr>
           \<lparr>rnd_purchase_date = 0, rnd_purchase_amount = 1500, rnd_investor = 0,
            rnd_processor = 0\<rparr> = Inr p \<and>
        units p = of_int (amount p) / 1000 \<and>
        units p = of_int (amount p)
          / minimum_investment \<lparr>sukuk_id = 1, issue_date = 738000, minimum_investment = 1000\<rparr>)"
  using units_per_thousand[of 739500 "[3]" "[7]"
      "\<lparr>sukuk_id = 1, issue_date = 738000, minimum_investment = 1000\<rparr>"
      "\<lparr>rnd_purchase_date = 0, rnd_purchase_amount = 1500, rnd_investor = 0,
            rnd_processor = 0\<rparr>"]
  by auto

section \<open>Period windows of the distributions\<close>

lemma windows_from_nth:
  "windows_from p q ds \<Longrightarrow> j < length ds \<Longrightarrow>
     period_start (ds ! j) = bought_on p + 90 * int (q + j) \<and>
     period_end (ds ! j) = period_start (ds ! j) + 90"
proof (induction ds arbitrary: q j)
  case Nil
  then show ?case by simp
next
  case (Cons d ds)
  show ?case
  proof (cases j)
    case 0
    then show ?thesis using Cons.prems by simp
  next
    case (Suc i)
    then show ?thesis using Cons.prems Cons.IH[of "Suc q" i] by simp
  qed
qed

lemma windows_from_take: "windows_from p q ds \<Longrightarrow> windows_from p q (take m ds)"
proof (induction ds arbitrary: q m)
  case Nil
  then show ?case by simp
next
  case (Cons d ds)
  then show ?case by (cases m) simp_all
qed

lemma windows_from_ids: "windows_from p q ds \<Longrightarrow> d \<in> set ds \<Longrightarrow> dist_purchase_id d = purchase_id p"
  by (induction ds arbitrary: q) auto

lemma distribution_loop_windows:
  "distribution_loop p now n emp rnd k q acc = Inr res \<Longrightarrow>
     \<exists>ds. res = acc @ ds \<and> windows_from p q ds \<and> length ds \<le> k"
proof (induction k arbitrary: q acc res)
  case 0
  then show ?case by simp
next
  case (Suc k)
  show ?case
  proof (cases "bought_on p + 90 * int q + 90 > now")
    case True
    then show ?thesis using Suc.prems by (simp add: Let_def)
  next
    case False
    obtain e where e: "random_choice emp (rnd_dist_employee rnd q) = Inr e"
      using Suc.prems False by (auto simp: Let_def split: sum.splits)
    define d where "d = \<lparr>dist_purchase_id = purchase_id p,
        distribution_date = bought_on p + 90 * int q + 90,
        dist_amount = py_round ((amount_invested p * expected_return_rate p / 4)
                 * random_uniform (9 / 10) (11 / 10) (rnd_noise rnd q)) 2,
        period_start = bought_on p + 90 * int q,
        period_end = bought_on p + 90 * int q + 90,
        dist_employee_id = e\<rparr>"
    show ?thesis
    proof (cases "length (acc @ [d]) \<ge> n")
      case True
      then have "res = acc @ [d]"
        using Suc.prems False e by (simp add: Let_def d_def)
      then show ?thesis by (simp add: d_def)
    next
      case stop: False
      then have "distribution_loop p now n emp rnd k (Suc q) (acc @ [d]) = Inr res"
        using Suc.prems False e by (simp add: Let_def d_def)
      from Suc.IH[OF this] obtain ds where
        "res = (acc @ [d]) @ ds" "windows_from p (Suc q) ds" "length ds \<le> k" by blast
      then have "res = acc @ (d # ds) \<and> windows_from p q (d # ds) \<and> length (d # ds) \<le> Suc k"
        by (simp add: d_def)
      then show ?thesis by blast
    qed
  qed
qed

lemma filter_take_prefix: "\<exists>m. filter P (take n xs) = take m (filter P xs)"
proof (induction xs arbitrary: n)
  case Nil
  then show ?case by simp
next
  case (Cons x xs)
  show ?case
  proof (cases n)
    case 0
    then show ?thesis by (intro exI[of _ 0]) simp
  next
    case (Suc k)
    obtain m where m: "filter P (take k xs) = take m (filter P xs)" using Cons.IH by blast
    show ?thesis
    proof (cases "P x")
      case True
      then show ?thesis using Suc m by (intro exI[of _ "Suc m"]) simp
    next
      case False
      then show ?thesis using Suc m by (intro exI[of _ m]) simp
    qed
  qed
qed

lemma purchase_distributions_windows:
  "purchase_distributions p now n emp rnd acc = Inr res \<Longrightarrow>
     \<exists>ds. res = acc @ ds \<and> windows_from p 0 ds"
  unfolding purchase_distributions_def using distribution_loop_windows by blast

lemma distributions_of_purchases_windows:
  assumes "distributions_of_purchases now n emp sampled acc = Inr res"
    and "distinct (map (\<lambda>x. purchase_id (fst x)) sampled)"
  shows "\<exists>ds. res = acc @ ds \<and>
           (\<forall>d\<in>set ds. dist_purchase_id d \<in> (\<lambda>x. purchase_id (fst x)) ` set sampled) \<and>
           (\<forall>p\<in>fst ` set sampled.
              windows_from p 0 (filter (\<lambda>d. dist_purchase_id d = purchase_id p) ds))"
  using assms
proof (induction sampled arbitrary: acc res)
  case Nil
  then show ?case by simp
next
  case (Cons pr rest)
  obtain p rnd where pr: "pr = (p, rnd)" by (cases pr)
  obtain acc1 where a1: "purchase_distributions p now n emp rnd acc = Inr acc1"
    using Cons.prems(1) pr by (auto split: sum.splits)
  obtain ds1 where ds1: "acc1 = acc @ ds1" "windows_from p 0 ds1"
    using purchase_distributions_windows[OF a1] by blast
  have id1: "\<forall>d\<in>set ds1. dist_purchase_id d = purchase_id p"
    using windows_from_ids[OF ds1(2)] by blast
  have fresh: "purchase_id p \<notin> (\<lambda>x. purchase_id (fst x)) ` set rest"
    using Cons.prems(2) pr by auto
  have dist: "distinct (map (\<lambda>x. purchase_id (fst x)) rest)" using Cons.prems(2) by simp
  have own: "filter (\<lambda>d. dist_purchase_id d = purchase_id p) ds1 = ds1"
    using id1 by (simp add: filter_id_conv)
  have other1: "\<And>p'. p' \<in> fst ` set rest \<Longrightarrow>
          filter (\<lambda>d. dist_purchase_id d = purchase_id p') ds1 = []"
  proof -
    fix p' assume "p' \<in> fst ` set rest"
    then have "purchase_id p' \<in> (\<lambda>x. purchase_id (fst x)) ` set rest" by auto
    then have "purchase_id p' \<noteq> purchase_id p" using fresh by metis
    then show "filter (\<lambda>d. dist_purchase_id d = purchase_id p') ds1 = []"
      using id1 by (simp add: filter_empty_conv)
  qed
  show ?case
  proof (cases "length acc1 \<ge> n")
    case True
    then have "res = acc @ ds1" using Cons.prems(1) pr a1 ds1(1) by simp
    moreover have "\<forall>d\<in>set ds1. dist_purchase_id d \<in> (\<lambda>x. purchase_id (fst x)) ` set (pr # rest)"
      using id1 pr by simp
    moreover have "\<forall>p'\<in>fst ` set (pr # rest).
              windows_from p' 0 (filter (\<lambda>d. dist_purchase_id d = purchase_id p') ds1)"
      using own other1 ds1(2) pr by auto
    ultimately show ?thesis by blast
  next
    case False
    then have "distributions_of_purchases now n emp rest acc1 = Inr res"
      using Cons.prems(1) pr a1 by simp
    from Cons.IH[OF this dist] obtain ds2 where
      r: "res = acc1 @ ds2" and
      id2: "\<forall>d\<in>set ds2. dist_purchase_id d \<in> (\<lambda>x. purchase_id (fst x)) ` set rest" and
      w2: "\<forall>p'\<in>fst ` set rest.
              windows_from p' 0 (filter (\<lambda>d. dist_purchase_id d = purchase_id p') ds2)"
      by blast
    have none2: "filter (\<lambda>d. dist_purchase_id d = purchase_id p) ds2 = []"
      unfolding filter_empty_conv using id2 fresh by metis
    have "res = acc @ (ds1 @ ds2)" using r ds1(1) by simp
    moreover have "\<forall>d\<in>set (ds1 @ ds2).
        dist_purchase_id d \<in> (\<lambda>x. purchase_id (fst x)) ` set (pr # rest)"
      using id1 id2 pr by auto
    moreover have "\<forall>p'\<in>fst ` set (pr # rest).
        windows_from p' 0 (filter (\<lambda>d. dist_purchase_id d = purchase_id p') (ds1 @ ds2))"
    proof
      fix p' assume "p' \<in> fst ` set (pr # rest)"
      then consider "p' = p" | "p' \<in> fst ` set rest" using pr by auto
      then show "windows_from p' 0
          (filter (\<lambda>d. dist_purchase_id d = purchase_id p') (ds1 @ ds2))"
      proof cases
        case 1
        then show ?thesis using own none2 ds1(2) by simp
      next
        case 2
        have "windows_from p' 0 (filter (\<lambda>d. dist_purchase_id d = purchase_id p') ds2)"
          using w2 2 by blast
        then show ?thesis using other1[OF 2] by simp
      qed
    qed
    ultimately show ?thesis by blast
  qed
qed

text \<open>
  C4: in the table written by the distribution stage, every row belongs to a sampled
  purchase, and the rows of one purchase, in table order, cover windows that are each
  exactly 90 days long, the first starting at the purchase date and each next one starting
  where the previous one ends (so they are chronologically ordered, contiguous and do not
  overlap). The sample is drawn without replacement from rows with a primary key, so the
  purchase ids of the sample are distinct.
\<close>

theorem distribution_windows:
  assumes "generate_profit_distributions now n emp sampled = Inr rows"
    and "distinct (map (\<lambda>x. purchase_id (fst x)) sampled)"
  shows "(\<forall>d\<in>set rows. \<exists>p\<in>fst ` set sampled. dist_purchase_id d = purchase_id p) \<and>
         (\<forall>p\<in>fst ` set sampled. \<forall>ds.
            ds = filter (\<lambda>d. dist_purchase_id d = purchase_id p) rows \<longrightarrow>
            (\<forall>j<length ds. period_end (ds ! j) = period_start (ds ! j) + 90 \<and>
                            period_start (ds ! j) = bought_on p + 90 * int j) \<and>
            (ds \<noteq> [] \<longrightarrow> period_start (ds ! 0) = bought_on p) \<and>
            (\<forall>j. Suc j < length ds \<longrightarrow>
                   period_start (ds ! Suc j) = period_end (ds ! j) \<and>
                   period_start (ds ! j) < period_start (ds ! Suc j)))"
proof -
  obtain res where res: "distributions_of_purchases now n emp sampled [] = Inr res"
    and rows: "rows = take n res"
    using assms(1) unfolding generate_profit_distributions_def by (auto split: sum.splits)
  obtain ds0 where ds0: "res = [] @ ds0"
    and ids: "\<forall>d\<in>set ds0. dist_purchase_id d \<in> (\<lambda>x. purchase_id (fst x)) ` set sampled"
    and win: "\<forall>p\<in>fst ` set sampled.
              windows_from p 0 (filter (\<lambda>d. dist_purchase_id d = purchase_id p) ds0)"
    using distributions_of_purchases_windows[OF res assms(2)] by blast
  have "\<forall>d\<in>set rows. \<exists>p\<in>fst ` set sampled. dist_purchase_id d = purchase_id p"
  proof
    fix d assume "d \<in> set rows"
    then have "d \<in> set ds0" using rows ds0 by (auto dest: in_set_takeD)
    then show "\<exists>p\<in>fst ` set sampled. dist_purchase_id d = purchase_id p"
      using ids by auto
  qed
  moreover have "\<forall>p\<in>fst ` set sampled. \<forall>ds.
            ds = filter (\<lambda>d. dist_purchase_id d = purchase_id p) rows \<longrightarrow>
            (\<forall>j<length ds. period_end (ds ! j) = period_start (ds ! j) + 90 \<and>
                            period_start (ds ! j) = bought_on p + 90 * int j) \<and>
            (ds \<noteq> [] \<longrightarrow> period_start (ds ! 0) = bought_on p) \<and>
            (\<forall>j. Suc j < length ds \<longrightarrow>
                   period_start (ds ! Suc j) = period_end (ds ! j) \<and>
                   period_start (ds ! j) < period_start (ds ! Suc j))"
  proof (intro ballI allI impI)
    fix p ds
    assume p: "p \<in> fst ` set sampled"
      and ds: "ds = filter (\<lambda>d. dist_purchase_id d = purchase_id p) rows"
    obtain m where "ds = take m (filter (\<lambda>d. dist_purchase_id d = purchase_id p) ds0)"
      using filter_take_prefix[of "\<lambda>d. dist_purchase_id d = purchase_id p" n ds0]
        ds rows ds0 by auto
    then have w: "windows_from p 0 ds" using win p windows_from_take by blast
    have nth: "\<And>j. j < length ds \<Longrightarrow>
        period_start (ds ! j) = bought_on p + 90 * int j \<and>
        period_end (ds ! j) = period_start (ds ! j) + 90"
      using windows_from_nth[OF w] by simp
    have a: "\<forall>j<length ds. period_end (ds ! j) = period_start (ds ! j) + 90 \<and>
                            period_start (ds ! j) = bought_on p + 90 * int j"
      using nth by blast
    have b: "ds \<noteq> [] \<longrightarrow> period_start (ds ! 0) = bought_on p"
      using nth[of 0] by simp
    have c: "\<forall>j. Suc j < length ds \<longrightarrow>
                   period_start (ds ! Suc j) = period_end (ds ! j) \<and>
                   period_start (ds ! j) < period_start (ds ! Suc j)"
    proof (intro allI impI)
      fix j assume j: "Suc j < length ds"
      then have "j < length ds" by simp
      from nth[OF this] nth[OF j]
      show "period_start (ds ! Suc j) = period_end (ds ! j) \<and>
            period_start (ds ! j) < period_start (ds ! Suc j)" by simp
    qed
    show "(\<forall>j<length ds. period_end (ds ! j) = period_start (ds ! j) + 90 \<and>
                            period_start (ds ! j) = bought_on p + 90 * int j) \<and>
            (ds \<noteq> [] \<longrightarrow> period_start (ds ! 0) = bought_on p) \<and>
            (\<forall>j. Suc j < length ds \<longrightarrow>
                   period_start (ds ! Suc j) = period_end (ds ! j) \<and>
                   period_start (ds ! j) < period_start (ds ! Suc j))"
      using a b c by blast
  qed
  ultimately show ?thesis by blast
qed

theorem distribution_windows_witness:
  "generate_profit_distributions 738200 800 [7]
     [(\<lparr>purchase_id = 1, bought_on = 738000, amount_invested = 10000,
        expected_return_rate = 8 / 100\<rparr>,
       \<lparr>rnd_noise = (\<lambda>q. 1 / 2), rnd_dist_employee = (\<lambda>q. 0)\<rparr>)]
   = Inr [\<lparr>dist_purchase_id = 1, distribution_date = 738090, dist_amount = 200,
           period_start = 738000, period_end = 738090, dist_employee_id = 7\<rparr>,
          \<lparr>dist_purchase_id = 1, distribution_date = 738180, dist_amount = 200,
           period_start = 738090, period_end = 738180, dist_employee_id = 7\<rparr>] \<and>
   distinct (map (\<lambda>x. purchase_id (fst x))
     [(\<lparr>purchase_id = 1, bought_on = 738000, amount_invested = 10000,
        expected_return_rate = 8 / 100\<rparr>,
       \<lparr>rnd_noise = (\<lambda>q. 1 / 2), rnd_dist_employee = (\<lambda>q. 0)\<rparr>)]) \<and>
   period_start (filter (\<lambda>d. dist_purchase_id d = 1)
     [\<lparr>dist_purchase_id = 1, distribution_date = 738090, dist_amount = 200,
           period_start = 738000, period_end = 738090, dist_employee_id = 7\<rparr>,
          \<lparr>dist_purchase_id = 1, distribution_date = 738180, dist_amount = 200,
           period_start = 738090, period_end = 738180, dist_employee_id = 7\<rparr>] ! 0) = 738000"
proof -
  let ?p = "\<lparr>purchase_id = 1, bought_on = 738000, amount_invested = 10000,
        expected_return_rate = 8 / 100\<rparr>"
  let ?r = "\<lparr>rnd_noise = (\<lambda>q::nat. 1 / 2 :: real), rnd_dist_employee = (\<lambda>q::nat. 0::nat)\<rparr>"
  let ?rows = "[\<lparr>dist_purchase_id = 1, distribution_date = 738090, dist_amount = 200,
           period_start = 738000, period_end = 738090, dist_employee_id = 7\<rparr>,
          \<lparr>dist_purchase_id = 1, distribution_date = 738180, dist_amount = 200,
           period_start = 738090, period_end = 738180, dist_employee_id = 7\<rparr>]"
  have g: "generate_profit_distributions 738200 800 [7] [(?p, ?r)] = Inr ?rows"
    by (simp add: generate_profit_distributions_def purchase_distributions_def
        quarters_since_purchase_def py_int_def numeral_2_eq_2 Let_def random_choice_def
        random_uniform_def py_round_def half_even_def)
  have d: "distinct (map (\<lambda>x. purchase_id (fst x)) [(?p, ?r)])" by simp
  show ?thesis using g d distribution_windows[OF g d] by simp
qed

section \<open>The horizon cap of the distributions\<close>

lemma distribution_loop_full:
  "emp \<noteq> [] \<Longrightarrow> bought_on p + 90 * int (q + k) \<le> now \<Longrightarrow> length acc + k \<le> n \<Longrightarrow>
     \<exists>ds. distribution_loop p now n emp rnd k q acc = Inr (acc @ ds) \<and> length ds = k"
proof (induction k arbitrary: q acc)
  case 0
  then show ?case by simp
next
  case (Suc k)
  have date: "\<not> bought_on p + 90 * int q + 90 > now" using Suc.prems(2) by simp
  obtain e where e: "random_choice emp (rnd_dist_employee rnd q) = Inr e"
    using random_choice_total[OF Suc.prems(1)] by blast
  define d where "d = \<lparr>dist_purchase_id = purchase_id p,
        distribution_date = bought_on p + 90 * int q + 90,
        dist_amount = py_round ((amount_invested p * expected_return_rate p / 4)
                 * random_uniform (9 / 10) (11 / 10) (rnd_noise rnd q)) 2,
        period_start = bought_on p + 90 * int q,
        period_end = bought_on p + 90 * int q + 90,
        dist_employee_id = e\<rparr>"
  show ?case
  proof (cases "length (acc @ [d]) \<ge> n")
    case True
    then have k: "k = 0" using Suc.prems(3) by simp
    have "distribution_loop p now n emp rnd (Suc k) q acc = Inr (acc @ [d])"
      using date e True by (simp add: Let_def d_def)
    then show ?thesis using k by simp
  next
    case False
    have 1: "bought_on p + 90 * int (Suc q + k) \<le> now" using Suc.prems(2) by simp
    have 2: "length (acc @ [d]) + k \<le> n" using Suc.prems(3) by simp
    from Suc.IH[OF Suc.prems(1) 1 2] obtain ds where
      ds: "distribution_loop p now n emp rnd k (Suc q) (acc @ [d]) = Inr ((acc @ [d]) @ ds)"
        "length ds = k" by blast
    have "distribution_loop p now n emp rnd (Suc k) q acc = Inr (acc @ (d # ds))"
      using date e False ds(1) by (simp add: Let_def d_def)
    then show ?thesis using ds(2) by (metis length_Cons)
  qed
qed

lemma quarters_ten:
  assumes "quarters_since_purchase p now = 10"
  shows "900 \<le> now - bought_on p"
proof -
  let ?x = "real_of_int (now - bought_on p) / 90"
  have pos: "0 \<le> ?x"
  proof (rule ccontr)
    assume "\<not> 0 \<le> ?x"
    then have "py_int ?x = \<lceil>?x\<rceil>" "\<lceil>?x\<rceil> \<le> 0"
      by (simp_all add: py_int_def ceiling_le_iff)
    then show False using assms unfolding quarters_since_purchase_def by linarith
  qed
  then have "\<lfloor>?x\<rfloor> = 10" using assms by (simp add: quarters_since_purchase_def py_int_def)
  then have "10 \<le> ?x" by linarith
  then have "900 \<le> real_of_int (now - bought_on p)" by simp
  then show ?thesis by linarith
qed

text \<open>
  C5: for a purchase whose elapsed quarters compute to 10, the stage appends exactly 8
  distributions (not 10) to those generated so far, provided the quota has room for them
  (and the pool of Finance employees the processor is chosen from is not empty, without
  which the stage raises and writes nothing).
\<close>

theorem horizon_cap:
  assumes "quarters_since_purchase p now = 10" and "emp \<noteq> []"
    and "length acc + 8 \<le> num_distributions"
  shows "\<exists>ds. purchase_distributions p now num_distributions emp rnd acc = Inr (acc @ ds) \<and>
              length ds = 8"
proof -
  have "bought_on p + 90 * int (0 + 8) \<le> now" using quarters_ten[OF assms(1)] by simp
  from distribution_loop_full[OF assms(2) this assms(3)]
  show ?thesis unfolding purchase_distributions_def by (simp add: assms(1))
qed

theorem horizon_cap_witness:
  "quarters_since_purchase \<lparr>purchase_id = 1, bought_on = 738000, amount_invested = 10000,
        expected_return_rate = 8 / 100\<rparr> 738950 = 10 \<and>
   [7::nat] \<noteq> [] \<and> length ([] :: distribution list) + 8 \<le> 800 \<and>
   (\<exists>ds. purchase_distributions \<lparr>purchase_id = 1, bought_on = 738000,
            amount_invested = 10000, expected_return_rate = 8 / 100\<rparr> 738950 800 [7]
            \<lparr>rnd_noise = (\<lambda>q. 1 / 2), rnd_dist_employee = (\<lambda>q. 0)\<rparr> [] = Inr ([] @ ds) \<and>
         length ds = 8)"
proof -
  let ?p = "\<lparr>purchase_id = 1, bought_on = 738000, amount_invested = 10000,
        expected_return_rate = 8 / 100\<rparr>"
  have q: "quarters_since_purchase ?p 738950 = 10"
    by (simp add: quarters_since_purchase_def py_int_def)
  have e: "[7::nat] \<noteq> []" by simp
  have c: "length ([] :: distribution list) + 8 \<le> 800" by simp
  show ?thesis using q e c horizon_cap[OF q e c] by blast
qed

section \<open>Facts about the payment loop\<close>

lemma split_payment_cases:
  assumes "split_payment st mp pp fp r = Inr (a, b, c)"
  shows "(st = Missed \<and> a = 0 \<and> b = 0 \<and> c = 0) \<or>
         (st = OnTime \<and> a = mp \<and> b = pp \<and> c = fp) \<or>
         (st = Late \<and> mp \<noteq> 0 \<and> a = mp * random_uniform (5 / 10) (9 / 10) r \<and>
            b = a * (pp / mp) \<and> c = a * (fp / mp))"
proof (cases st)
  case OnTime
  then show ?thesis using assms by (simp add: split_payment_def)
next
  case Missed
  then show ?thesis using assms by (simp add: split_payment_def)
next
  case Late
  let ?paid = "mp * random_uniform (5 / 10) (9 / 10) r"
  have nz: "mp \<noteq> 0"
    using assms Late by (auto simp: split_payment_def py_div_def Let_def split: if_splits)
  then have eq: "split_payment Late mp pp fp r
      = Inr (?paid, ?paid * (pp / mp), ?paid * (fp / mp))"
    by (simp add: split_payment_def py_div_def Let_def)
  have "Inr (?paid, ?paid * (pp / mp), ?paid * (fp / mp)) = (Inr (a, b, c) :: error + _)"
    using assms unfolding Late eq .
  then have "a = ?paid \<and> b = ?paid * (pp / mp) \<and> c = ?paid * (fp / mp)"
    by blast
  then show ?thesis using Late nz by blast
qed

lemma split_payment_total:
  "mp \<noteq> 0 \<Longrightarrow> \<exists>a b c. split_payment st mp pp fp r = Inr (a, b, c)"
  unfolding split_payment_def py_div_def Let_def
  by (cases st) simp_all

lemma split_payment_error:
  "split_payment st mp pp fp r = Inl e \<Longrightarrow> e = ZeroDivisionError \<and> mp = 0 \<and> st = Late"
  unfolding split_payment_def py_div_def Let_def
  by (cases st) (auto split: if_splits)

lemma payment_loop_chain:
  "payment_loop lid l now n mp rnd k i before acc = Inr res \<Longrightarrow>
     \<exists>ys. res = acc @ ys \<and> length ys \<le> k \<and> realized_chain l mp rnd i before ys"
proof (induction k arbitrary: i before acc res)
  case 0
  then show ?case by simp
next
  case (Suc k)
  let ?date = "disbursement_date l + 30 * (int i + 1)"
  show ?case
  proof (cases "?date > now")
    case True
    then show ?thesis using Suc.prems by (simp add: Let_def)
  next
    case False
    let ?fp = "before * (profit_rate l / 12)"
    let ?st = "random_choices_status (rnd_status rnd i)"
    obtain a b c where sp: "split_payment ?st mp (mp - ?fp) ?fp (rnd_late rnd i) = Inr (a, b, c)"
      using Suc.prems False
      by (auto simp add: Let_def simp del: times_divide_eq_right split: sum.splits)
    define y where "y = \<lparr>rp_loan_id = lid, rp_date = ?date, actual_payment = a,
        actual_principal = b, actual_profit = c, remaining = max 0 (before - b),
        rp_status = ?st\<rparr>"
    have step: "realized_step l mp rnd i before y"
      unfolding realized_step_def Let_def using sp by (simp add: y_def)
    have rem: "remaining y = max 0 (before - b)" by (simp add: y_def)
    show ?thesis
    proof (cases "length (acc @ [y]) \<ge> n")
      case True
      then have "res = acc @ [y]"
        using Suc.prems False sp
        by (simp add: Let_def y_def del: times_divide_eq_right)
      then show ?thesis using step by simp
    next
      case more: False
      then have "payment_loop lid l now n mp rnd k (Suc i) (max 0 (before - b)) (acc @ [y])
                   = Inr res"
        using Suc.prems False sp
        by (simp add: Let_def y_def del: times_divide_eq_right)
      from Suc.IH[OF this] obtain ys where
        "res = (acc @ [y]) @ ys" "length ys \<le> k"
        "realized_chain l mp rnd (Suc i) (max 0 (before - b)) ys" by blast
      then have "res = acc @ (y # ys) \<and> length (y # ys) \<le> Suc k \<and>
                 realized_chain l mp rnd i before (y # ys)"
        using step rem by simp
      then show ?thesis by blast
    qed
  qed
qed

lemma realized_chain_nth:
  "realized_chain l mp rnd i before ys \<Longrightarrow> j < length ys \<Longrightarrow>
     realized_step l mp rnd (i + j) (if j = 0 then before else remaining (ys ! (j - 1))) (ys ! j)"
proof (induction ys arbitrary: i before j)
  case Nil
  then show ?case by simp
next
  case (Cons y ys)
  show ?case
  proof (cases j)
    case 0
    then show ?thesis using Cons.prems by simp
  next
    case (Suc m)
    have "realized_step l mp rnd (Suc i + m)
            (if m = 0 then remaining y else remaining (ys ! (m - 1))) (ys ! m)"
      using Cons.IH[of "Suc i" "remaining y" m] Cons.prems Suc by simp
    then show ?thesis using Suc by (cases m) simp_all
  qed
qed

lemma realized_step_principal_nonneg:
  assumes step: "realized_step l mp rnd i before y"
    and rate: "0 \<le> profit_rate l" and mp: "0 < mp" and cap: "B * (profit_rate l / 12) \<le> mp"
    and u: "unit_draw (rnd_late rnd i)" and b: "before \<le> B"
  shows "0 \<le> actual_principal y"
proof -
  let ?fp = "before * (profit_rate l / 12)"
  have "?fp \<le> B * (profit_rate l / 12)" using b rate by (intro mult_right_mono) simp_all
  then have pp: "0 \<le> mp - ?fp" using cap by linarith
  have sp: "split_payment (rp_status y) mp (mp - ?fp) ?fp (rnd_late rnd i)
              = Inr (actual_payment y, actual_principal y, actual_profit y)"
    using step unfolding realized_step_def Let_def by blast
  show ?thesis
  proof (cases "rp_status y")
    case OnTime
    then show ?thesis using sp pp by (simp add: split_payment_def)
  next
    case Missed
    then show ?thesis using sp by (simp add: split_payment_def)
  next
    case Late
    let ?paid = "mp * random_uniform (5 / 10) (9 / 10) (rnd_late rnd i)"
    have ap: "actual_principal y = ?paid * ((mp - ?fp) / mp)"
      using split_payment_cases[OF sp] Late by auto
    have "0 \<le> random_uniform (5 / 10) (9 / 10) (rnd_late rnd i)"
      using random_uniform_range[OF u, of "5 / 10" "9 / 10"] by simp
    then have "0 \<le> ?paid" using mp by simp
    moreover have "0 \<le> (mp - ?fp) / mp" using pp mp by simp
    ultimately have "0 \<le> ?paid * ((mp - ?fp) / mp)" by (rule mult_nonneg_nonneg)
    then show ?thesis unfolding ap .
  qed
qed

lemma realized_chain_bounds:
  assumes rate: "0 \<le> profit_rate l" and mp: "0 < mp" and cap: "B * (profit_rate l / 12) \<le> mp"
    and u: "\<forall>i. unit_draw (rnd_late rnd i)"
  shows "realized_chain l mp rnd i before ys \<Longrightarrow> 0 \<le> before \<Longrightarrow> before \<le> B \<Longrightarrow>
     j < length ys \<Longrightarrow>
     0 \<le> actual_principal (ys ! j) \<and> 0 \<le> remaining (ys ! j) \<and> remaining (ys ! j) \<le> B \<and>
     0 \<le> (if j = 0 then before else remaining (ys ! (j - 1))) \<and>
     (if j = 0 then before else remaining (ys ! (j - 1))) \<le> B"
proof (induction ys arbitrary: i before j)
  case Nil
  then show ?case by simp
next
  case (Cons y ys)
  have step: "realized_step l mp rnd i before y" using Cons.prems(1) by simp
  have ap: "0 \<le> actual_principal y"
    using realized_step_principal_nonneg[OF step rate mp cap _ Cons.prems(3)] u by blast
  have r: "remaining y = max 0 (before - actual_principal y)"
    using step unfolding realized_step_def Let_def by blast
  have r0: "0 \<le> remaining y" and rB: "remaining y \<le> B"
    using r ap Cons.prems(2,3) by simp_all
  show ?case
  proof (cases j)
    case 0
    then show ?thesis using ap r0 rB Cons.prems by simp
  next
    case (Suc m)
    have "realized_chain l mp rnd (Suc i) (remaining y) ys" using Cons.prems(1) by simp
    from Cons.IH[OF this r0 rB, of m] Cons.prems(4) Suc
    show ?thesis by (cases m) simp_all
  qed
qed

lemma loan_months_pos: "1 \<le> loan_months l"
  by (simp add: loan_months_def)

lemma monthly_payment_of_total:
  "monthly_payment_of l =
     Inr ((loan_amount l + loan_amount l * profit_rate l * (of_int (loan_months l) / 12))
          / of_int (loan_months l))"
proof -
  have "real_of_int (loan_months l) \<noteq> 0" using loan_months_pos[of l] by simp
  then show ?thesis by (simp add: monthly_payment_of_def py_div_def Let_def)
qed

lemma monthly_payment_of_bounds:
  assumes "monthly_payment_of l = Inr mp" and "0 < loan_amount l" and "0 \<le> profit_rate l"
  shows "0 < mp \<and> loan_amount l * (profit_rate l / 12) \<le> mp"
proof -
  let ?m = "real_of_int (loan_months l)"
  let ?L = "loan_amount l"
  let ?r = "profit_rate l"
  have m: "1 \<le> ?m" using loan_months_pos[of l] by simp
  have mp: "mp = (?L + ?L * ?r * (?m / 12)) / ?m"
    using assms(1) unfolding monthly_payment_of_total by simp
  have "(?L + ?L * ?r * (?m / 12)) / ?m = ?L / ?m + ?L * (?r / 12)"
    using m by (simp add: field_simps)
  then have eq: "mp = ?L / ?m + ?L * (?r / 12)" using mp by simp
  have 1: "0 < ?L / ?m" using assms(2) m by simp
  have 2: "0 \<le> ?L * (?r / 12)" using assms(2,3) by simp
  show ?thesis using eq 1 2 by linarith
qed

lemma payment_loop_total:
  assumes "mp \<noteq> 0"
  shows "\<exists>res. payment_loop lid l now n mp rnd k i before acc = Inr res"
proof (induction k arbitrary: i before acc)
  case 0
  then show ?case by simp
next
  case (Suc k)
  let ?fp = "before * (profit_rate l / 12)"
  obtain a b c where sp: "split_payment (random_choices_status (rnd_status rnd i)) mp
      (mp - ?fp) ?fp (rnd_late rnd i) = Inr (a, b, c)"
    using split_payment_total[OF assms] by blast
  show ?case
    using sp Suc.IH by (simp add: Let_def del: times_divide_eq_right)
qed

lemma payment_loop_full_length:
  "payment_loop lid l now n mp rnd k i before acc = Inr res \<Longrightarrow>
   disbursement_date l + 30 * int (i + k) \<le> now \<Longrightarrow> length acc + k \<le> n \<Longrightarrow>
   length res = length acc + k"
proof (induction k arbitrary: i before acc res)
  case 0
  then show ?case by simp
next
  case (Suc k)
  let ?date = "disbursement_date l + 30 * (int i + 1)"
  let ?fp = "before * (profit_rate l / 12)"
  have date: "\<not> ?date > now" using Suc.prems(2) by simp
  obtain a b c where sp: "split_payment (random_choices_status (rnd_status rnd i)) mp
      (mp - ?fp) ?fp (rnd_late rnd i) = Inr (a, b, c)"
    using Suc.prems(1) date
    by (auto simp add: Let_def simp del: times_divide_eq_right split: sum.splits)
  define y where "y = \<lparr>rp_loan_id = lid, rp_date = ?date, actual_payment = a,
        actual_principal = b, actual_profit = c, remaining = max 0 (before - b),
        rp_status = random_choices_status (rnd_status rnd i)\<rparr>"
  show ?case
  proof (cases "length (acc @ [y]) \<ge> n")
    case True
    then have "res = acc @ [y]"
      using Suc.prems(1) date sp by (simp add: Let_def y_def del: times_divide_eq_right)
    moreover have "k = 0" using True Suc.prems(3) by simp
    ultimately show ?thesis by simp
  next
    case False
    then have rec: "payment_loop lid l now n mp rnd k (Suc i) (max 0 (before - b)) (acc @ [y])
                 = Inr res"
      using Suc.prems(1) date sp by (simp add: Let_def y_def del: times_divide_eq_right)
    have 1: "disbursement_date l + 30 * int (Suc i + k) \<le> now" using Suc.prems(2) by simp
    have 2: "length (acc @ [y]) + k \<le> n" using Suc.prems(3) by simp
    show ?thesis using Suc.IH[OF rec 1 2] by simp
  qed
qed

lemma num_loan_payments_total:
  "\<exists>d. num_loan_payments l now k = Inr d"
proof -
  let ?m = "real_of_int (loan_months l)"
  have "0 \<le> ?m" using loan_months_pos[of l] by simp
  then have "?m * (3 / 10) \<le> ?m * (7 / 10)" by simp
  then have "py_int (?m * (3 / 10)) \<le> py_int (?m * (7 / 10))" by (rule py_int_mono)
  then show ?thesis
    using random_randint_total by (simp add: num_loan_payments_def Let_def)
qed

lemma loan_payments_total:
  assumes "0 < loan_amount l" and "0 \<le> profit_rate l"
  shows "\<exists>res. loan_payments lid l now n rnd acc = Inr res"
proof -
  obtain mp where mp: "monthly_payment_of l = Inr mp" using monthly_payment_of_total by blast
  then have "mp \<noteq> 0" using monthly_payment_of_bounds[OF mp assms] by simp
  moreover obtain d where "num_loan_payments l now (rnd_count rnd) = Inr d"
    using num_loan_payments_total by blast
  ultimately show ?thesis
    using mp payment_loop_total by (simp add: loan_payments_def)
qed

lemma term_36_months:
  "maturity_date l - disbursement_date l = 1080 \<Longrightarrow> loan_months l = 36"
  by (simp add: loan_months_def py_int_def)

lemma defaulted_36_draw:
  assumes "loan_status l = Defaulted" and "maturity_date l - disbursement_date l = 1080"
  shows "num_loan_payments l now k = random_randint 10 25 k"
  using assms term_36_months[OF assms(2)]
  by (simp add: num_loan_payments_def py_int_def)

lemma loan_payments_chain:
  assumes "loan_payments lid l now n rnd acc = Inr res"
  shows "\<exists>mp ys. monthly_payment_of l = Inr mp \<and> res = acc @ ys \<and>
           realized_chain l mp rnd 0 (loan_amount l) ys"
proof -
  obtain mp where mp: "monthly_payment_of l = Inr mp" using monthly_payment_of_total by blast
  obtain d where d: "num_loan_payments l now (rnd_count rnd) = Inr d"
    using num_loan_payments_total by blast
  have "payment_loop lid l now n mp rnd (nat d) 0 (loan_amount l) acc = Inr res"
    using assms mp d by (simp add: loan_payments_def)
  from payment_loop_chain[OF this] show ?thesis using mp by blast
qed

lemma example_payments: "loan_payments 1
     \<lparr>loan_borrower_id = 1, loan_amount = 120000, disbursement_date = 737425,
      maturity_date = 737785, profit_rate = 10 / 100, loan_status = PaidOff,
      approved_by_employee_id = 7, outstanding_balance = 0\<rparr>
     737500 2000
     \<lparr>rnd_count = 0, rnd_status = (\<lambda>i. if i = 0 then 0 else 96 / 100),
      rnd_late = (\<lambda>i. 1 / 2)\<rparr> []
   = Inr [\<lparr>rp_loan_id = 1, rp_date = 737455, actual_payment = 11000,
           actual_principal = 10000, actual_profit = 1000, remaining = 110000,
           rp_status = OnTime\<rparr>,
          \<lparr>rp_loan_id = 1, rp_date = 737485, actual_payment = 7700,
           actual_principal = 21175 / 3, actual_profit = 1925 / 3, remaining = 308825 / 3,
           rp_status = Late\<rparr>]"
  by (simp add: loan_payments_def monthly_payment_of_def loan_months_def py_int_def py_div_def
      num_loan_payments_def Let_def eval_nat_numeral split_payment_def
      random_choices_status_def random_uniform_def)

section \<open>Running remaining balance\<close>

text \<open>
  C2: along the payments generated for a loan (positive principal, non-negative profit
  rate, as every generated loan has), the running remaining balance starts at the principal,
  is the previous balance minus the realised principal portion floored at zero (the
  realised portion being zero for Missed, the paid fraction's principal share for Late and
  the scheduled principal portion for On Time), never increases and never goes below zero;
  the stored remaining-balance field is its 2-decimal rounding, and the stored fields of
  consecutive payments never increase either.
\<close>

theorem remaining_balance_running:
  assumes "0 < loan_amount l" and "0 \<le> profit_rate l"
    and "\<forall>i. unit_draw (rnd_late rnd i)"
    and "loan_payments lid l now n rnd acc = Inr res"
  shows "\<exists>mp ys. monthly_payment_of l = Inr mp \<and> res = acc @ ys \<and>
     (\<forall>j<length ys.
        let y = ys ! j;
            before = (if j = 0 then loan_amount l else remaining (ys ! (j - 1)));
            scheduled = mp - before * (profit_rate l / 12)
        in actual_principal y =
             (case rp_status y of
                Missed \<Rightarrow> 0
              | Late \<Rightarrow> actual_payment y * (scheduled / mp)
              | OnTime \<Rightarrow> scheduled) \<and>
           remaining y = max 0 (before - actual_principal y) \<and>
           0 \<le> remaining y \<and> remaining y \<le> before \<and> before \<le> loan_amount l \<and>
           remaining_balance (store_payment y) = py_round (remaining y) 2 \<and>
           (0 < j \<longrightarrow> remaining_balance (store_payment y)
                       \<le> remaining_balance (store_payment (ys ! (j - 1)))))"
proof -
  obtain mp ys where mp: "monthly_payment_of l = Inr mp" and res: "res = acc @ ys"
    and ch: "realized_chain l mp rnd 0 (loan_amount l) ys"
    using loan_payments_chain[OF assms(4)] by blast
  have mpb: "0 < mp" "loan_amount l * (profit_rate l / 12) \<le> mp"
    using monthly_payment_of_bounds[OF mp assms(1,2)] by simp_all
  have L0: "0 \<le> loan_amount l" using assms(1) by simp
  have "\<forall>j<length ys.
        let y = ys ! j;
            before = (if j = 0 then loan_amount l else remaining (ys ! (j - 1)));
            scheduled = mp - before * (profit_rate l / 12)
        in actual_principal y =
             (case rp_status y of
                Missed \<Rightarrow> 0
              | Late \<Rightarrow> actual_payment y * (scheduled / mp)
              | OnTime \<Rightarrow> scheduled) \<and>
           remaining y = max 0 (before - actual_principal y) \<and>
           0 \<le> remaining y \<and> remaining y \<le> before \<and> before \<le> loan_amount l \<and>
           remaining_balance (store_payment y) = py_round (remaining y) 2 \<and>
           (0 < j \<longrightarrow> remaining_balance (store_payment y)
                       \<le> remaining_balance (store_payment (ys ! (j - 1))))"
  proof (intro allI impI)
    fix j assume j: "j < length ys"
    define before where "before = (if j = 0 then loan_amount l else remaining (ys ! (j - 1)))"
    define sched where "sched = mp - before * (profit_rate l / 12)"
    define y where "y = ys ! j"
    have step: "realized_step l mp rnd j before y"
      using realized_chain_nth[OF ch j] by (simp add: before_def y_def)
    then have sp: "split_payment (rp_status y) mp sched (before * (profit_rate l / 12))
                  (rnd_late rnd j)
                = Inr (actual_payment y, actual_principal y, actual_profit y)"
      and rem: "remaining y = max 0 (before - actual_principal y)"
      unfolding realized_step_def Let_def sched_def by blast+
    have bnd: "0 \<le> actual_principal y" "0 \<le> remaining y" "0 \<le> before"
      "before \<le> loan_amount l"
      using realized_chain_bounds[OF assms(2) mpb(1) mpb(2) assms(3) ch L0 order_refl j]
      by (simp_all add: y_def before_def)
    have ap: "actual_principal y =
             (case rp_status y of
                Missed \<Rightarrow> 0
              | Late \<Rightarrow> actual_payment y * (sched / mp)
              | OnTime \<Rightarrow> sched)"
      using split_payment_cases[OF sp] by auto
    have le: "remaining y \<le> before" using rem bnd(1,3) by simp
    have st: "remaining_balance (store_payment y) = py_round (remaining y) 2"
      by (simp add: store_payment_def)
    have mono: "0 < j \<longrightarrow> remaining_balance (store_payment y)
                       \<le> remaining_balance (store_payment (ys ! (j - 1)))"
    proof
      assume "0 < j"
      then have "before = remaining (ys ! (j - 1))" by (simp add: before_def)
      then have "py_round (remaining y) 2 \<le> py_round (remaining (ys ! (j - 1))) 2"
        using le py_round_mono by simp
      then show "remaining_balance (store_payment y)
                       \<le> remaining_balance (store_payment (ys ! (j - 1)))"
        by (simp add: store_payment_def)
    qed
    show "let y = ys ! j;
            before = (if j = 0 then loan_amount l else remaining (ys ! (j - 1)));
            scheduled = mp - before * (profit_rate l / 12)
        in actual_principal y =
             (case rp_status y of
                Missed \<Rightarrow> 0
              | Late \<Rightarrow> actual_payment y * (scheduled / mp)
              | OnTime \<Rightarrow> scheduled) \<and>
           remaining y = max 0 (before - actual_principal y) \<and>
           0 \<le> remaining y \<and> remaining y \<le> before \<and> before \<le> loan_amount l \<and>
           remaining_balance (store_payment y) = py_round (remaining y) 2 \<and>
           (0 < j \<longrightarrow> remaining_balance (store_payment y)
                       \<le> remaining_balance (store_payment (ys ! (j - 1))))"
      unfolding Let_def
      using ap rem bnd(2) le bnd(4) st mono unfolding y_def sched_def before_def by blast
  qed
  then show ?thesis using mp res by blast
qed

theorem remaining_balance_running_witness:
  "0 < loan_amount \<lparr>loan_borrower_id = 1, loan_amount = 120000, disbursement_date = 737425,
      maturity_date = 737785, profit_rate = 10 / 100, loan_status = PaidOff,
      approved_by_employee_id = 7, outstanding_balance = 0\<rparr> \<and>
   0 \<le> profit_rate \<lparr>loan_borrower_id = 1, loan_amount = 120000, disbursement_date = 737425,
      maturity_date = 737785, profit_rate = 10 / 100, loan_status = PaidOff,
      approved_by_employee_id = 7, outstanding_balance = 0\<rparr> \<and>
   (\<forall>i. unit_draw (rnd_late \<lparr>rnd_count = 0, rnd_status = (\<lambda>i. if i = 0 then 0 else 96 / 100),
      rnd_late = (\<lambda>i. 1 / 2)\<rparr> i)) \<and>
   (\<exists>ys. loan_payments 1
     \<lparr>loan_borrower_id = 1, loan_amount = 120000, disbursement_date = 737425,
      maturity_date = 737785, profit_rate = 10 / 100, loan_status = PaidOff,
      approved_by_employee_id = 7, outstanding_balance = 0\<rparr>
     737500 2000
     \<lparr>rnd_count = 0, rnd_status = (\<lambda>i. if i = 0 then 0 else 96 / 100),
      rnd_late = (\<lambda>i. 1 / 2)\<rparr> [] = Inr ys \<and> length ys = 2 \<and>
     remaining (ys ! 0) = max 0 (120000 - actual_principal (ys ! 0)) \<and>
     remaining (ys ! 1) = max 0 (remaining (ys ! 0) - actual_principal (ys ! 1)) \<and>
     remaining_balance (store_payment (ys ! 1)) \<le> remaining_balance (store_payment (ys ! 0)))"
proof -
  let ?l = "\<lparr>loan_borrower_id = 1, loan_amount = 120000, disbursement_date = 737425,
      maturity_date = 737785, profit_rate = 10 / 100, loan_status = PaidOff,
      approved_by_employee_id = 7, outstanding_balance = 0\<rparr>"
  let ?r = "\<lparr>rnd_count = 0, rnd_status = (\<lambda>i. if i = 0 then 0 else 96 / 100),
      rnd_late = (\<lambda>i. 1 / 2)\<rparr>"
  have h1: "0 < loan_amount ?l" by simp
  have h2: "0 \<le> profit_rate ?l" by simp
  have h3: "\<forall>i. unit_draw (rnd_late ?r i)" by (simp add: unit_draw_def)
  obtain mp ys where
    ys: "[\<lparr>rp_loan_id = 1, rp_date = 737455, actual_payment = 11000,
           actual_principal = 10000, actual_profit = 1000, remaining = 110000,
           rp_status = OnTime\<rparr>,
          \<lparr>rp_loan_id = 1, rp_date = 737485, actual_payment = 7700,
           actual_principal = 21175 / 3, actual_profit = 1925 / 3, remaining = 308825 / 3,
           rp_status = Late\<rparr>] = [] @ ys"
    and p: "\<forall>j<length ys.
        let y = ys ! j;
            before = (if j = 0 then loan_amount ?l else remaining (ys ! (j - 1)));
            scheduled = mp - before * (profit_rate ?l / 12)
        in actual_principal y =
             (case rp_status y of
                Missed \<Rightarrow> 0
              | Late \<Rightarrow> actual_payment y * (scheduled / mp)
              | OnTime \<Rightarrow> scheduled) \<and>
           remaining y = max 0 (before - actual_principal y) \<and>
           0 \<le> remaining y \<and> remaining y \<le> before \<and> before \<le> loan_amount ?l \<and>
           remaining_balance (store_payment y) = py_round (remaining y) 2 \<and>
           (0 < j \<longrightarrow> remaining_balance (store_payment y)
                       \<le> remaining_balance (store_payment (ys ! (j - 1))))"
    using remaining_balance_running[OF h1 h2 h3 example_payments] by blast
  have len: "length ys = 2" using ys by auto
  have p0: "remaining (ys ! 0) = max 0 (120000 - actual_principal (ys ! 0))"
    using p len by (auto simp: Let_def)
  have ysv: "ys ! 0 = \<lparr>rp_loan_id = 1, rp_date = 737455, actual_payment = 11000,
           actual_principal = 10000, actual_profit = 1000, remaining = 110000,
           rp_status = OnTime\<rparr>"
      "ys ! 1 = \<lparr>rp_loan_id = 1, rp_date = 737485, actual_payment = 7700,
           actual_principal = 21175 / 3, actual_profit = 1925 / 3, remaining = 308825 / 3,
           rp_status = Late\<rparr>"
    using ys by auto
  have p1: "remaining (ys ! 1) = max 0 (remaining (ys ! 0) - actual_principal (ys ! 1)) \<and>
       remaining_balance (store_payment (ys ! 1)) \<le> remaining_balance (store_payment (ys ! 0))"
    unfolding ysv by (simp add: store_payment_def py_round_def half_even_def)
  have "loan_payments 1 ?l 737500 2000 ?r [] = Inr ys"
    using example_payments ys by simp
  then show ?thesis using h1 h2 h3 len p0 p1 by blast
qed

section \<open>Number of payments of a Defaulted loan\<close>

lemma payment_loop_length_le:
  "payment_loop lid l now n mp rnd k i before acc = Inr res \<Longrightarrow>
     \<exists>ys. res = acc @ ys \<and> length ys \<le> k"
  using payment_loop_chain by blast

text \<open>
  C3, as claimed: a Defaulted loan with a term of 36 periods has between 10 and 26 payment
  records unless a payment date falls in the future. The quota of the stage stops the loop
  as well: with a quota of 3 and every payment date in the past, the loan below has 3.
\<close>

theorem defaulted_count_cut_by_quota:
  "loan_status \<lparr>loan_borrower_id = 1, loan_amount = 100000, disbursement_date = 737425,
      maturity_date = 738505, profit_rate = 8 / 100, loan_status = Defaulted,
      approved_by_employee_id = 7, outstanding_balance = 50000\<rparr> = Defaulted \<and>
   maturity_date \<lparr>loan_borrower_id = 1, loan_amount = 100000, disbursement_date = 737425,
      maturity_date = 738505, profit_rate = 8 / 100, loan_status = Defaulted,
      approved_by_employee_id = 7, outstanding_balance = 50000\<rparr>
     - disbursement_date \<lparr>loan_borrower_id = 1, loan_amount = 100000, disbursement_date = 737425,
      maturity_date = 738505, profit_rate = 8 / 100, loan_status = Defaulted,
      approved_by_employee_id = 7, outstanding_balance = 50000\<rparr> = 36 * 30 \<and>
   disbursement_date \<lparr>loan_borrower_id = 1, loan_amount = 100000, disbursement_date = 737425,
      maturity_date = 738505, profit_rate = 8 / 100, loan_status = Defaulted,
      approved_by_employee_id = 7, outstanding_balance = 50000\<rparr> + 30 * 25 \<le> 739500 \<and>
   map_sum id length (generate_loan_payments 739500 3
     [((1, \<lparr>loan_borrower_id = 1, loan_amount = 100000, disbursement_date = 737425,
      maturity_date = 738505, profit_rate = 8 / 100, loan_status = Defaulted,
      approved_by_employee_id = 7, outstanding_balance = 50000\<rparr>),
       \<lparr>rnd_count = 5, rnd_status = (\<lambda>i. 0), rnd_late = (\<lambda>i. 1 / 2)\<rparr>)]) = Inr 3"
  by (simp add: generate_loan_payments_def loan_payments_def monthly_payment_of_def
      loan_months_def py_int_def py_div_def num_loan_payments_def random_randint_def Let_def
      eval_nat_numeral split_payment_def random_choices_status_def)

text \<open>
  C3, amended: for a Defaulted loan with a term of 36 periods (1080 days), the number of
  payments asked for is a \<^verbatim>\<open>randint\<close> draw between int(36 * 0.3) = 10 and int(36 * 0.7) = 25;
  the number of records generated for the loan never exceeds the draw, so it is at most 26,
  and it equals the draw, so it is between 10 and 26, unless generation stops early because
  a payment date would fall in the future or because the quota of the stage is reached.
\<close>

theorem defaulted_payment_count:
  assumes "loan_status l = Defaulted" and "maturity_date l - disbursement_date l = 1080"
    and "0 < loan_amount l" and "0 \<le> profit_rate l"
  shows "\<exists>d ys. num_loan_payments l now (rnd_count rnd) = Inr d \<and>
           10 \<le> d \<and> d \<le> 25 \<and>
           loan_payments lid l now n rnd acc = Inr (acc @ ys) \<and>
           int (length ys) \<le> d \<and> length ys \<le> 26 \<and>
           (disbursement_date l + 30 * d \<le> now \<and> int (length acc) + d \<le> int n \<longrightarrow>
              int (length ys) = d \<and> 10 \<le> length ys)"
proof -
  have draw: "num_loan_payments l now (rnd_count rnd) = random_randint 10 25 (rnd_count rnd)"
    using defaulted_36_draw[OF assms(1,2)] .
  obtain d where d: "num_loan_payments l now (rnd_count rnd) = Inr d"
    using num_loan_payments_total by blast
  have range: "10 \<le> d \<and> d \<le> 25" using d random_randint_range unfolding draw by blast
  obtain mp where mp: "monthly_payment_of l = Inr mp" using monthly_payment_of_total by blast
  obtain res where res: "loan_payments lid l now n rnd acc = Inr res"
    using loan_payments_total[OF assms(3,4)] by blast
  have loop: "payment_loop lid l now n mp rnd (nat d) 0 (loan_amount l) acc = Inr res"
    using res mp d by (simp add: loan_payments_def)
  obtain ys where ys: "res = acc @ ys" "length ys \<le> nat d"
    using payment_loop_length_le[OF loop] by blast
  have le: "int (length ys) \<le> d" "length ys \<le> 26" using ys(2) range by linarith+
  have full: "disbursement_date l + 30 * d \<le> now \<and> int (length acc) + d \<le> int n \<longrightarrow>
              int (length ys) = d \<and> 10 \<le> length ys"
  proof
    assume h: "disbursement_date l + 30 * d \<le> now \<and> int (length acc) + d \<le> int n"
    have 1: "disbursement_date l + 30 * int (0 + nat d) \<le> now" using h range by simp
    have 2: "length acc + nat d \<le> n" using h range by linarith
    have "length res = length acc + nat d" using payment_loop_full_length[OF loop 1 2] .
    then have "length ys = nat d" using ys(1) by simp
    then show "int (length ys) = d \<and> 10 \<le> length ys" using range by linarith
  qed
  show ?thesis using d range res ys(1) le full by blast
qed

theorem defaulted_payment_count_witness:
  "loan_status \<lparr>loan_borrower_id = 1, loan_amount = 100000, disbursement_date = 737425,
      maturity_date = 738505, profit_rate = 8 / 100, loan_status = Defaulted,
      approved_by_employee_id = 7, outstanding_balance = 50000\<rparr> = Defaulted \<and>
   maturity_date \<lparr>loan_borrower_id = 1, loan_amount = 100000, disbursement_date = 737425,
      maturity_date = 738505, profit_rate = 8 / 100, loan_status = Defaulted,
      approved_by_employee_id = 7, outstanding_balance = 50000\<rparr>
     - disbursement_date \<lparr>loan_borrower_id = 1, loan_amount = 100000, disbursement_date = 737425,
      maturity_date = 738505, profit_rate = 8 / 100, loan_status = Defaulted,
      approved_by_employee_id = 7, outstanding_balance = 50000\<rparr> = 1080 \<and>
   0 < loan_amount \<lparr>loan_borrower_id = 1, loan_amount = 100000, disbursement_date = 737425,
      maturity_date = 738505, profit_rate = 8 / 100, loan_status = Defaulted,
      approved_by_employee_id = 7, outstanding_balance = 50000\<rparr> \<and>
   0 \<le> profit_rate \<lparr>loan_borrower_id = 1, loan_amount = 100000, disbursement_date = 737425,
      maturity_date = 738505, profit_rate = 8 / 100, loan_status = Defaulted,
      approved_by_employee_id = 7, outstanding_balance = 50000\<rparr> \<and>
   (\<exists>ys. loan_payments 1 \<lparr>loan_borrower_id = 1, loan_amount = 100000, disbursement_date = 737425,
      maturity_date = 738505, profit_rate = 8 / 100, loan_status = Defaulted,
      approved_by_employee_id = 7, outstanding_balance = 50000\<rparr> 739500 2000
           \<lparr>rnd_count = 5, rnd_status = (\<lambda>i. 0), rnd_late = (\<lambda>i. 1 / 2)\<rparr> [] = Inr ([] @ ys) \<and>
         length ys = 15 \<and> 10 \<le> length ys \<and> length ys \<le> 26)"
proof -
  let ?l = "\<lparr>loan_borrower_id = 1, loan_amount = 100000, disbursement_date = 737425,
      maturity_date = 738505, profit_rate = 8 / 100, loan_status = Defaulted,
      approved_by_employee_id = 7, outstanding_balance = 50000\<rparr>"
  let ?r = "\<lparr>rnd_count = 5, rnd_status = (\<lambda>i. 0), rnd_late = (\<lambda>i. 1 / 2)\<rparr>"
  have h1: "loan_status ?l = Defaulted" by simp
  have h2: "maturity_date ?l - disbursement_date ?l = 1080" by simp
  have h3: "0 < loan_amount ?l" by simp
  have h4: "0 \<le> profit_rate ?l" by simp
  obtain d ys where d: "num_loan_payments ?l 739500 (rnd_count ?r) = Inr d"
    and lp: "loan_payments 1 ?l 739500 2000 ?r [] = Inr ([] @ ys)"
    and le: "length ys \<le> 26"
    and full: "disbursement_date ?l + 30 * d \<le> 739500 \<and>
               int (length ([] :: realized_payment list)) + d \<le> int 2000 \<longrightarrow>
               int (length ys) = d \<and> 10 \<le> length ys"
    using defaulted_payment_count[OF h1 h2 h3 h4, of 739500 ?r 1 2000 "[]"] by blast
  have "num_loan_payments ?l 739500 (rnd_count ?r) = Inr 15"
    by (simp add: num_loan_payments_def loan_months_def py_int_def random_randint_def)
  then have d15: "d = 15" using d by simp
  have "int (length ys) = d \<and> 10 \<le> length ys" using full unfolding d15 by simp
  then have "length ys = 15 \<and> 10 \<le> length ys" unfolding d15 by linarith
  then show ?thesis using h1 h2 h3 h4 lp le by blast
qed

section \<open>Denominators\<close>

lemma random_choice_Nil: "random_choice [] k = Inl IndexError"
  by (simp add: random_choice_def)

lemma generate_business_loan_error:
  assumes "generate_business_loan now emp b rnd = Inl e"
  shows "e = IndexError \<and> emp = []"
proof (cases "emp = []")
  case False
  then show ?thesis using generate_business_loan_total[OF False, of now b rnd] assms by simp
next
  case True
  obtain amt where a: "draw_loan_amount (credit_score b) (rnd_amount rnd) = Inr amt"
    using draw_loan_amount_total by blast
  obtain t where t: "random_choice [12, 24, 36, 48, 60::int] (rnd_term rnd) = Inr t"
    using random_choice_total[of "[12, 24, 36, 48, 60::int]"] by auto
  obtain d where d: "date_between START_DATE END_DATE (rnd_disbursement rnd) = Inr d"
    using date_between_total[of START_DATE END_DATE]
    by (auto simp: START_DATE_def END_DATE_def)
  obtain st out where s: "resolve_status now (of_int amt) d (d + t * 30)
       (rnd_default rnd) (rnd_recovery rnd) = Inr (st, out)"
    using resolve_status_total by blast
  have "generate_business_loan now emp b rnd = Inl IndexError"
    unfolding generate_business_loan_def Let_def
    by (simp add: a d t s True random_choice_Nil)
  then show ?thesis using assms True by simp
qed

lemma generated_loan_positive:
  assumes "generate_business_loan now emp b rnd = Inr l" and "unit_draw (rnd_jitter rnd)"
  shows "10000 \<le> loan_amount l \<and> 7 / 100 \<le> profit_rate l"
proof -
  obtain amt where a: "draw_loan_amount (credit_score b) (rnd_amount rnd) = Inr amt"
    and la: "loan_amount l = of_int amt"
    and pr: "profit_rate l = py_round (draw_profit_rate (credit_score b) (rnd_jitter rnd)) 4"
    using generate_business_loan_fields[OF assms(1)] by blast
  have "10000 \<le> amt" using draw_loan_amount_range[OF a] by linarith
  then have 1: "10000 \<le> loan_amount l" unfolding la by simp
  have "- (1 / 100) \<le> random_uniform (- (1 / 100)) (1 / 100) (rnd_jitter rnd)"
    using random_uniform_range[OF assms(2), of "- (1 / 100)" "1 / 100"] by simp
  then have "7 / 100 \<le> draw_profit_rate (credit_score b) (rnd_jitter rnd)"
    by (simp add: draw_profit_rate_def Let_def)
  then have "real_of_int 700 / 10 ^ 4 \<le> draw_profit_rate (credit_score b) (rnd_jitter rnd)"
    by simp
  then have "real_of_int 700 / 10 ^ 4 \<le> profit_rate l" unfolding pr by (rule py_round_ge)
  then show ?thesis using 1 by simp
qed

text \<open>
  C8: no division of the loan and payment generators meets a zero denominator. The loan
  generator never raises ZeroDivisionError: the ratio elapsed/total_days is computed only
  when total_days > 0, and otherwise the outstanding balance of an Active loan is the full
  principal. The period count is at least 1 for any loan row, also one whose term has
  length zero, so the instalment is always defined. For every loan the loan generator
  produces, the instalment is positive, so the Late split divides by a non-zero instalment
  and the payment generator returns its rows. The instalment itself has no floor: the Late
  split is the only division that can fail, and only on an instalment of zero
  (\<open>split_payment_error\<close>), which no generated loan has.
\<close>

theorem no_zero_denominator:
  assumes "generate_business_loan now emp b lrnd = Inr l" and "unit_draw (rnd_jitter lrnd)"
  shows "generate_business_loan now' emp' b' lrnd' \<noteq> Inl ZeroDivisionError \<and>
         (\<exists>st out. resolve_status now' a d m r1 r2 = Inr (st, out)) \<and>
         (\<not> r1 < DEFAULT_RATE \<and> \<not> m < now' \<and> \<not> m - d > 0 \<longrightarrow>
            resolve_status now' a d m r1 r2 = Inr (Active, a)) \<and>
         1 \<le> loan_months l' \<and>
         (maturity_date l' = disbursement_date l' \<longrightarrow> loan_months l' = 1) \<and>
         (\<exists>mp. monthly_payment_of l' = Inr mp) \<and>
         (\<exists>mp. monthly_payment_of l = Inr mp \<and> 0 < mp) \<and>
         (\<exists>res. loan_payments lid l now2 n prnd acc = Inr res)"
proof -
  have 1: "generate_business_loan now' emp' b' lrnd' \<noteq> Inl ZeroDivisionError"
    using generate_business_loan_error by fastforce
  have 2: "\<exists>st out. resolve_status now' a d m r1 r2 = Inr (st, out)"
    using resolve_status_total by blast
  have 3: "\<not> r1 < DEFAULT_RATE \<and> \<not> m < now' \<and> \<not> m - d > 0 \<longrightarrow>
            resolve_status now' a d m r1 r2 = Inr (Active, a)"
    by (simp add: resolve_status_def Let_def)
  have 4: "1 \<le> loan_months l'" by (rule loan_months_pos)
  have 5: "maturity_date l' = disbursement_date l' \<longrightarrow> loan_months l' = 1"
    by (simp add: loan_months_def py_int_def)
  have 6: "\<exists>mp. monthly_payment_of l' = Inr mp" using monthly_payment_of_total by blast
  have pos: "0 < loan_amount l" "0 \<le> profit_rate l"
    using generated_loan_positive[OF assms] by linarith+
  obtain mp where mp: "monthly_payment_of l = Inr mp" using monthly_payment_of_total by blast
  have 7: "\<exists>mp. monthly_payment_of l = Inr mp \<and> 0 < mp"
    using mp monthly_payment_of_bounds[OF mp pos] by blast
  have 8: "\<exists>res. loan_payments lid l now2 n prnd acc = Inr res"
    using loan_payments_total[OF pos] by blast
  show ?thesis using 1 2 3 4 5 6 7 8 by blast
qed

theorem no_zero_denominator_witness:
  "generate_business_loan 739500 [7] \<lparr>borrower_id = 1, credit_score = 700\<rparr>
     \<lparr>rnd_amount = 50000, rnd_disbursement = 0, rnd_term = 2, rnd_jitter = 1 / 2,
      rnd_default = 1 / 2, rnd_recovery = 1 / 2, rnd_employee = 0\<rparr>
   = Inr \<lparr>loan_borrower_id = 1, loan_amount = 100000, disbursement_date = 737425,
          maturity_date = 738505, profit_rate = 10 / 100, loan_status = PaidOff,
          approved_by_employee_id = 7, outstanding_balance = 0\<rparr> \<and>
   unit_draw (1 / 2) \<and>
   (\<exists>mp. monthly_payment_of \<lparr>loan_borrower_id = 1, loan_amount = 100000, disbursement_date = 737425,
          maturity_date = 738505, profit_rate = 10 / 100, loan_status = PaidOff,
          approved_by_employee_id = 7, outstanding_balance = 0\<rparr> = Inr mp \<and> 0 < mp) \<and>
   (\<exists>res. loan_payments 1 \<lparr>loan_borrower_id = 1, loan_amount = 100000, disbursement_date = 737425,
          maturity_date = 738505, profit_rate = 10 / 100, loan_status = PaidOff,
          approved_by_employee_id = 7, outstanding_balance = 0\<rparr> 739500 2000
      \<lparr>rnd_count = 0, rnd_status = (\<lambda>i. 0), rnd_late = (\<lambda>i. 1 / 2)\<rparr> [] = Inr res)"
proof -
  let ?rnd = "\<lparr>rnd_amount = 50000, rnd_disbursement = 0, rnd_term = 2, rnd_jitter = 1 / 2,
      rnd_default = 1 / 2, rnd_recovery = 1 / 2, rnd_employee = 0\<rparr>"
  have g: "generate_business_loan 739500 [7] \<lparr>borrower_id = 1, credit_score = 700\<rparr> ?rnd
   = Inr \<lparr>loan_borrower_id = 1, loan_amount = 100000, disbursement_date = 737425,
          maturity_date = 738505, profit_rate = 10 / 100, loan_status = PaidOff,
          approved_by_employee_id = 7, outstanding_balance = 0\<rparr>"
    by (simp add: generate_business_loan_def draw_loan_amount_def random_randint_def
        date_between_def START_DATE_def END_DATE_def random_choice_def draw_profit_rate_def
        random_uniform_def resolve_status_def DEFAULT_RATE_def py_round_def half_even_def)
  have u: "unit_draw (rnd_jitter ?rnd)" by (simp add: unit_draw_def)
  have u': "unit_draw (1 / 2)" by (simp add: unit_draw_def)
  show ?thesis
    using g u' no_zero_denominator[OF g u, of _ _ _ _ _ _ _ _ _ _ 1 739500 2000
        "\<lparr>rnd_count = 0, rnd_status = (\<lambda>i. 0), rnd_late = (\<lambda>i. 1 / 2)\<rparr>" "[]"]
    by blast
qed

section \<open>Reproducibility\<close>

text \<open>
  A run is modelled as a function of the draws of the seeded generators, of the volume
  parameters and of the date read from the clock. Two runs with the same seed receive the
  same draws.
\<close>

lemma loan_payments_length:
  assumes "0 < loan_amount l" and "0 \<le> profit_rate l"
    and "num_loan_payments l now (rnd_count rnd) = Inr (int k)"
    and "disbursement_date l + 30 * int k \<le> now" and "length acc + k \<le> n"
  shows "\<exists>ys. loan_payments lid l now n rnd acc = Inr (acc @ ys) \<and> length ys = k"
proof -
  obtain mp where mp: "monthly_payment_of l = Inr mp" using monthly_payment_of_total by blast
  obtain res where res: "loan_payments lid l now n rnd acc = Inr res"
    using loan_payments_total[OF assms(1,2)] by blast
  have loop: "payment_loop lid l now n mp rnd k 0 (loan_amount l) acc = Inr res"
    using res mp assms(3) by (simp add: loan_payments_def)
  obtain ys where ys: "res = acc @ ys" using payment_loop_chain[OF loop] by blast
  have "disbursement_date l + 30 * int (0 + k) \<le> now" using assms(4) by simp
  from payment_loop_full_length[OF loop this assms(5)]
  have "length ys = k" using ys by simp
  then show ?thesis using res ys by blast
qed

lemma run_single_loan:
  assumes "generate_business_loan now emp b lrnd = Inr l"
    and "loan_payments 1 l now n prnd [] = Inr res" and "length res \<le> n"
  shows "run_loans_and_payments now emp [(b, lrnd)] [prnd] n
           = Inr ([l], map store_payment res)"
  using assms
  by (simp add: run_loans_and_payments_def stored_loans_def generate_loan_payments_def)

text \<open>
  C6: two full generation runs with the same seed and the same volume parameters produce
  identical datasets, with identical row counts and aggregate sums per table; the script
  seeds its generators ``for reproducibility''. Every stage also reads the clock. With the
  same draws and the same quota, a run dated 739300 (2025-02-18) stores the loan below as
  Active with a balance of 78611.11 and writes 3 payment rows for it; a run dated 30 days
  later stores a balance of 72777.78 and writes 4 payment rows.
\<close>

theorem dataset_depends_on_clock:
  "map_sum id fst
     (run_loans_and_payments 739300 [7]
        [(\<lparr>borrower_id = 1, credit_score = 700\<rparr>,
          \<lparr>rnd_amount = 50000, rnd_disbursement = 1765, rnd_term = 0, rnd_jitter = 1 / 2,
      rnd_default = 1 / 2, rnd_recovery = 1 / 2, rnd_employee = 0\<rparr>)]
        [\<lparr>rnd_count = 0, rnd_status = (\<lambda>i. 0), rnd_late = (\<lambda>i. 1 / 2)\<rparr>] 2000)
   = Inr [\<lparr>loan_borrower_id = 1, loan_amount = 100000, disbursement_date = 739190,
          maturity_date = 739550, profit_rate = 10 / 100, loan_status = Active,
          approved_by_employee_id = 7, outstanding_balance = 7861111 / 100\<rparr>] \<and>
   map_sum id (length \<circ> snd)
     (run_loans_and_payments 739300 [7]
        [(\<lparr>borrower_id = 1, credit_score = 700\<rparr>,
          \<lparr>rnd_amount = 50000, rnd_disbursement = 1765, rnd_term = 0, rnd_jitter = 1 / 2,
      rnd_default = 1 / 2, rnd_recovery = 1 / 2, rnd_employee = 0\<rparr>)]
        [\<lparr>rnd_count = 0, rnd_status = (\<lambda>i. 0), rnd_late = (\<lambda>i. 1 / 2)\<rparr>] 2000) = Inr 3 \<and>
   map_sum id fst
     (run_loans_and_payments 739330 [7]
        [(\<lparr>borrower_id = 1, credit_score = 700\<rparr>,
          \<lparr>rnd_amount = 50000, rnd_disbursement = 1765, rnd_term = 0, rnd_jitter = 1 / 2,
      rnd_default = 1 / 2, rnd_recovery = 1 / 2, rnd_employee = 0\<rparr>)]
        [\<lparr>rnd_count = 0, rnd_status = (\<lambda>i. 0), rnd_late = (\<lambda>i. 1 / 2)\<rparr>] 2000)
   = Inr [\<lparr>loan_borrower_id = 1, loan_amount = 100000, disbursement_date = 739190,
          maturity_date = 739550, profit_rate = 10 / 100, loan_status = Active,
          approved_by_employee_id = 7, outstanding_balance = 7277778 / 100\<rparr>] \<and>
   map_sum id (length \<circ> snd)
     (run_loans_and_payments 739330 [7]
        [(\<lparr>borrower_id = 1, credit_score = 700\<rparr>,
          \<lparr>rnd_amount = 50000, rnd_disbursement = 1765, rnd_term = 0, rnd_jitter = 1 / 2,
      rnd_default = 1 / 2, rnd_recovery = 1 / 2, rnd_employee = 0\<rparr>)]
        [\<lparr>rnd_count = 0, rnd_status = (\<lambda>i. 0), rnd_late = (\<lambda>i. 1 / 2)\<rparr>] 2000) = Inr 4"
proof -
  let ?b = "\<lparr>borrower_id = 1, credit_score = 700\<rparr>"
  let ?lr = "\<lparr>rnd_amount = 50000, rnd_disbursement = 1765, rnd_term = 0, rnd_jitter = 1 / 2,
      rnd_default = 1 / 2, rnd_recovery = 1 / 2, rnd_employee = 0\<rparr>"
  let ?pr = "\<lparr>rnd_count = 0, rnd_status = (\<lambda>i. 0), rnd_late = (\<lambda>i. 1 / 2)\<rparr>"
  let ?la = "\<lparr>loan_borrower_id = 1, loan_amount = 100000, disbursement_date = 739190,
          maturity_date = 739550, profit_rate = 10 / 100, loan_status = Active,
          approved_by_employee_id = 7, outstanding_balance = 7861111 / 100\<rparr>"
  let ?lb = "\<lparr>loan_borrower_id = 1, loan_amount = 100000, disbursement_date = 739190,
          maturity_date = 739550, profit_rate = 10 / 100, loan_status = Active,
          approved_by_employee_id = 7, outstanding_balance = 7277778 / 100\<rparr>"
  have ga: "generate_business_loan 739300 [7] ?b ?lr = Inr ?la"
    by (simp add: generate_business_loan_def draw_loan_amount_def random_randint_def
        date_between_def START_DATE_def END_DATE_def random_choice_def draw_profit_rate_def
        random_uniform_def resolve_status_def DEFAULT_RATE_def py_round_def half_even_def
        py_div_def)
  have gb: "generate_business_loan 739330 [7] ?b ?lr = Inr ?lb"
    by (simp add: generate_business_loan_def draw_loan_amount_def random_randint_def
        date_between_def START_DATE_def END_DATE_def random_choice_def draw_profit_rate_def
        random_uniform_def resolve_status_def DEFAULT_RATE_def py_round_def half_even_def
        py_div_def)
  have na: "num_loan_payments ?la 739300 (rnd_count ?pr) = Inr (int 3)"
    by (simp add: num_loan_payments_def loan_months_def py_int_def)
  have nb: "num_loan_payments ?lb 739330 (rnd_count ?pr) = Inr (int 4)"
    by (simp add: num_loan_payments_def loan_months_def py_int_def)
  obtain ya where ya: "loan_payments 1 ?la 739300 2000 ?pr [] = Inr ([] @ ya)"
    "length ya = 3"
    using loan_payments_length[OF _ _ na, of "[]" 2000 1] by auto
  obtain yb where yb: "loan_payments 1 ?lb 739330 2000 ?pr [] = Inr ([] @ yb)"
    "length yb = 4"
    using loan_payments_length[OF _ _ nb, of "[]" 2000 1] by auto
  have ra: "run_loans_and_payments 739300 [7] [(?b, ?lr)] [?pr] 2000
              = Inr ([?la], map store_payment ya)"
    using run_single_loan[OF ga] ya by simp
  have rb: "run_loans_and_payments 739330 [7] [(?b, ?lr)] [?pr] 2000
              = Inr ([?lb], map store_payment yb)"
    using run_single_loan[OF gb] yb by simp
  show ?thesis unfolding ra rb using ya(2) yb(2) by simp
qed

end
